theory Spec2Isabelle
  imports Complex_Main "HOL-Library.Sublist"
begin

section \<open>Python strings\<close>

text \<open>
  A Python \<^verbatim>\<open>str\<close> is a sequence of Unicode code points, so a string is a list of
  naturals. The source's literals are Russian; each is written out by its code points
  and described in the text above it. ASCII literals are written through \<open>asc\<close>.
\<close>

type_synonym pystr = "nat list"

definition asc :: "string \<Rightarrow> pystr" where
  "asc s = map of_char s"

text \<open>The exceptions the modelled code can raise, \<^verbatim>\<open>KeyError\<close> with its key.\<close>

datatype py_error = KeyError pystr | IndexError | ValueError | TypeError | AttributeError

text \<open>
  \<^verbatim>\<open>c.isspace()\<close>: the code points \<^verbatim>\<open>str.strip()\<close> removes when called without
  argument (CPython's \<^verbatim>\<open>_PyUnicode_IsWhitespace\<close>).
\<close>

definition isspace :: "nat \<Rightarrow> bool" where
  "isspace c \<longleftrightarrow>
     (9 \<le> c \<and> c \<le> 13) \<or> (28 \<le> c \<and> c \<le> 32) \<or> c = 133 \<or> c = 160 \<or> c = 5760 \<or>
     (8192 \<le> c \<and> c \<le> 8202) \<or> c = 8232 \<or> c = 8233 \<or> c = 8239 \<or> c = 8287 \<or>
     c = 12288"

text \<open>\<^verbatim>\<open>s.strip()\<close>: whitespace removed at both ends.\<close>

definition strip :: "pystr \<Rightarrow> pystr" where
  "strip s = rev (dropWhile isspace (rev (dropWhile isspace s)))"

text \<open>\<^verbatim>\<open>sub in s\<close>: \<open>sub\<close> occurs in \<open>s\<close> at some position.\<close>

fun py_in :: "pystr \<Rightarrow> pystr \<Rightarrow> bool" where
  "py_in sub [] = (sub = [])"
| "py_in sub (c # cs) = (prefix sub (c # cs) \<or> py_in sub cs)"

text \<open>
  \<^verbatim>\<open>s.split(sep)\<close> for a non-empty separator: a scan from the left, \<open>cur\<close> the piece
  read so far; at an occurrence of \<open>sep\<close> the piece is closed and the scan goes on
  behind the occurrence. An empty separator raises \<^verbatim>\<open>ValueError\<close>.
\<close>

function split_scan :: "pystr \<Rightarrow> pystr \<Rightarrow> pystr \<Rightarrow> pystr list" where
  "split_scan sep cur [] = [cur]"
| "split_scan sep cur (c # cs) =
     (if prefix sep (c # cs) then cur # split_scan sep [] (drop (length sep - 1) cs)
      else split_scan sep (cur @ [c]) cs)"
  by pat_completeness auto
termination
  by (relation "measure (\<lambda>(sep, cur, s). length s)") auto

definition py_split :: "pystr \<Rightarrow> pystr \<Rightarrow> py_error + pystr list" where
  "py_split sep s = (if sep = [] then Inl ValueError else Inr (split_scan sep [] s))"

text \<open>\<^verbatim>\<open>xs[i]\<close> for an index \<open>i \<ge> 0\<close>: \<^verbatim>\<open>IndexError\<close> out of range.\<close>

definition py_getitem :: "'a list \<Rightarrow> nat \<Rightarrow> py_error + 'a" where
  "py_getitem xs i = (if i < length xs then Inr (xs ! i) else Inl IndexError)"

text \<open>\<^verbatim>\<open>sep.join(xs)\<close>.\<close>

fun py_join :: "pystr \<Rightarrow> pystr list \<Rightarrow> pystr" where
  "py_join sep [] = []"
| "py_join sep [x] = x"
| "py_join sep (x # y # ys) = x @ sep @ py_join sep (y # ys)"


section \<open>Response cleaning (api\_handler.py, core/api\_manager.py)\<close>

text \<open>\<^verbatim>\<open>cut_tags = ["\<dots>", "INST", "Human:", "Assistant:", "###"]\<close>, the first
  the four Cyrillic capitals U+0421 U+0422 U+041E U+041F.\<close>

definition cut_tags :: "pystr list" where
  "cut_tags = [[1057, 1058, 1054, 1055], asc ''INST'', asc ''Human:'', asc ''Assistant:'',
     asc ''###'']"

text \<open>The marker \<^verbatim>\<open>MessengerAPI.clean_text\<close> returns for an empty text (29 code points,
  ending in a full stop).\<close>

definition EMPTY_RESPONSE :: pystr where
  "EMPTY_RESPONSE = [1054, 1090, 1074, 1077, 1090, 32, 1084, 1086, 1076, 1077, 1083, 1080, 32,
     1086, 1082, 1072, 1079, 1072, 1083, 1089, 1103, 32, 1087, 1091, 1089, 1090, 1099, 1084, 46]"

text \<open>The marker \<^verbatim>\<open>MessengerAPI.clean_text\<close> returns for a text that is empty after
  cleaning (43 code points).\<close>

definition EMPTY_AFTER_CLEANING :: pystr where
  "EMPTY_AFTER_CLEANING = [1054, 1090, 1074, 1077, 1090, 32, 1084, 1086, 1076, 1077, 1083, 1080,
     32, 1086, 1082, 1072, 1079, 1072, 1083, 1089, 1103, 32, 1087, 1091, 1089, 1090, 1099, 1084,
     32, 1087, 1086, 1089, 1083, 1077, 32, 1086, 1095, 1080, 1089, 1090, 1082, 1080, 46]"

text \<open>The one marker of \<^verbatim>\<open>APIManager._clean_text\<close> (12 code points).\<close>

definition EMPTY_CORE :: pystr where
  "EMPTY_CORE = [1054, 1090, 1074, 1077, 1090, 32, 1087, 1091, 1089, 1090, 1086, 1081]"

text \<open>
  The loop \<^verbatim>\<open>for tag in cut_tags: if tag in text: text = text.split(tag)[0]\<close>,
  the same in both classes.
\<close>

fun cut_loop :: "pystr list \<Rightarrow> pystr \<Rightarrow> py_error + pystr" where
  "cut_loop [] s = Inr s"
| "cut_loop (tag # tags) s =
     (if py_in tag s then
        (case py_split tag s of
           Inl e \<Rightarrow> Inl e
         | Inr parts \<Rightarrow>
             (case py_getitem parts 0 of
                Inl e \<Rightarrow> Inl e
              | Inr p \<Rightarrow> cut_loop tags p))
      else cut_loop tags s)"

text \<open>\<^verbatim>\<open>MessengerAPI.clean_text\<close> (api\_handler.py).\<close>

definition clean_text :: "pystr \<Rightarrow> py_error + pystr" where
  "clean_text s =
     (if s = [] then Inr EMPTY_RESPONSE
      else
        (case cut_loop cut_tags s of
           Inl e \<Rightarrow> Inl e
         | Inr t \<Rightarrow>
             (let t' = strip t in
              Inr (if t' \<noteq> [] then t' else EMPTY_AFTER_CLEANING))))"

text \<open>\<^verbatim>\<open>APIManager._clean_text\<close> (core/api\_manager.py).\<close>

definition core_clean_text :: "pystr \<Rightarrow> py_error + pystr" where
  "core_clean_text s =
     (if s = [] then Inr EMPTY_CORE
      else
        (case cut_loop cut_tags s of
           Inl e \<Rightarrow> Inl e
         | Inr t \<Rightarrow> Inr (if strip t \<noteq> [] then strip t else EMPTY_CORE)))"

text \<open>
  The specification's reading of one truncation, to compare the loop with: the part of
  the text before the first occurrence of the marker, the whole text when the marker
  does not occur.
\<close>

fun truncate_at :: "pystr \<Rightarrow> pystr \<Rightarrow> pystr" where
  "truncate_at [] marker = []"
| "truncate_at (c # cs) marker =
     (if prefix marker (c # cs) then [] else c # truncate_at cs marker)"


section \<open>\<^verbatim>\<open>str.format\<close> with keyword arguments\<close>

text \<open>
  \<^verbatim>\<open>template.format(**kw)\<close>, read from the left as CPython's formatter does: literal
  text is copied, \<^verbatim>\<open>{{\<close> and \<^verbatim>\<open>}}\<close> give one brace, a single \<^verbatim>\<open>}\<close> and an
  unclosed \<^verbatim>\<open>{\<close> raise \<^verbatim>\<open>ValueError\<close>. Behind a single \<^verbatim>\<open>{\<close> the formatter
  reads the name of a replacement field up to the first of the characters
  \<^verbatim>\<open>! . : [ { }\<close>. When that character is \<^verbatim>\<open>}\<close> the field is \<^verbatim>\<open>{name}\<close>, and a
  name that is not a number is looked up among the keyword arguments: \<^verbatim>\<open>KeyError\<close>
  with the name when it is not one of them, its value otherwise. The first fault from
  the left is the one raised.

  A name is a number for the formatter when it is empty or made of decimal digits only;
  below U+0660 the only decimal digits are the ASCII ones, so a name with a character
  below U+0660 that is not an ASCII digit is not a number. This covers every name with
  a Latin or Cyrillic letter, a blank or an underscore.

  Every other replacement field (an empty or numeric name, a conversion \<^verbatim>\<open>!r\<close>, a
  format specification after \<^verbatim>\<open>:\<close>, an attribute or an index, a brace inside the
  field) is outside this model: the function \<open>other\<close>, a parameter, stands for what
  Python does with the rest of the template from there, given the characters read so far
  and the text that follows them.
\<close>

definition is_name_char :: "nat \<Rightarrow> bool" where
  "is_name_char c \<longleftrightarrow> c \<notin> {33, 46, 58, 91, 123, 125}"

definition is_key_name :: "pystr \<Rightarrow> bool" where
  "is_key_name n \<longleftrightarrow> list_ex (\<lambda>c. c < 1632 \<and> \<not> (48 \<le> c \<and> c \<le> 57)) n"

fun prepend :: "pystr \<Rightarrow> py_error + pystr \<Rightarrow> py_error + pystr" where
  "prepend v (Inl e) = Inl e"
| "prepend v (Inr out) = Inr (v @ out)"

function py_format ::
  "(pystr \<Rightarrow> pystr \<Rightarrow> py_error + pystr) \<Rightarrow> (pystr \<rightharpoonup> pystr) \<Rightarrow> pystr \<Rightarrow> py_error + pystr"
where
  "py_format other kw [] = Inr []"
| "py_format other kw [c] = (if c = 123 \<or> c = 125 then Inl ValueError else Inr [c])"
| "py_format other kw (c # d # ds) =
     (if c = 123 then
        (if d = 123 then prepend [123] (py_format other kw ds)
         else
           (case dropWhile is_name_char (d # ds) of
              [] \<Rightarrow> Inl ValueError
            | r # rs \<Rightarrow>
                (if r = 125 \<and> is_key_name (takeWhile is_name_char (d # ds)) then
                   (case kw (takeWhile is_name_char (d # ds)) of
                      None \<Rightarrow> Inl (KeyError (takeWhile is_name_char (d # ds)))
                    | Some v \<Rightarrow> prepend v (py_format other kw rs))
                 else other (takeWhile is_name_char (d # ds)) (r # rs))))
      else if c = 125 then
        (if d = 125 then prepend [125] (py_format other kw ds) else Inl ValueError)
      else prepend [c] (py_format other kw (d # ds)))"
  by pat_completeness auto
termination
proof (relation "measure (\<lambda>(other, kw, s). length s)")
  fix other :: "pystr \<Rightarrow> pystr \<Rightarrow> py_error + pystr"
  fix kw :: "pystr \<rightharpoonup> pystr"
  fix c d r :: nat and ds rs :: pystr and v :: pystr
  assume "dropWhile is_name_char (d # ds) = r # rs"
  then have "length (r # rs) \<le> length (d # ds)"
    by (metis length_dropWhile_le)
  then show "((other, kw, rs), other, kw, c # d # ds) \<in> measure (\<lambda>(other, kw, s). length s)"
    by simp
qed auto


section \<open>The data model of the refactored application (models/, config/settings.py)\<close>

text \<open>\<^verbatim>\<open>MAX_MESSAGES_IN_HISTORY = 100\<close> and \<^verbatim>\<open>MAX_MESSAGES_FOR_API = 15\<close>.\<close>

definition MAX_MESSAGES_IN_HISTORY :: nat where
  "MAX_MESSAGES_IN_HISTORY = 100"

definition MAX_MESSAGES_FOR_API :: nat where
  "MAX_MESSAGES_FOR_API = 15"

text \<open>\<^verbatim>\<open>xs[-n:]\<close> for \<open>n \<ge> 0\<close>: the last \<open>n\<close> elements, all of them when \<open>n\<close> is zero
  or the list is shorter.\<close>

definition py_last_n :: "nat \<Rightarrow> 'a list \<Rightarrow> 'a list" where
  "py_last_n n xs = (if n = 0 then xs else drop (length xs - n) xs)"

text \<open>\<^verbatim>\<open>os.path.join\<close> on POSIX: a component that starts with a slash replaces what
  was joined before it.\<close>

fun posix_join :: "pystr \<Rightarrow> pystr list \<Rightarrow> pystr" where
  "posix_join path [] = path"
| "posix_join path (b # bs) =
     posix_join
       (if b \<noteq> [] \<and> hd b = 47 then b
        else if path = [] \<or> last path = 47 then path @ b
        else path @ [47] @ b) bs"

text \<open>A photo entry of a character: a dictionary read from YAML, the key
  \<^verbatim>\<open>filename\<close> present or not.\<close>

record photo_dict =
  p_filename :: "pystr option"

text \<open>The classes \<^verbatim>\<open>Character\<close>, \<^verbatim>\<open>Group\<close> and \<^verbatim>\<open>Message\<close>.\<close>

record Character =
  char_id :: pystr
  char_name :: pystr
  private_prompt :: pystr
  group_prompt :: pystr
  photos :: "photo_dict list"

record Group =
  group_id :: pystr
  group_name :: pystr
  members :: "pystr list"
  group_context :: pystr

record Message =
  msg_id :: pystr
  sender :: pystr
  msg_text :: pystr
  timestamp :: pystr
  msg_type :: pystr
  photo_path :: pystr

text \<open>
  A message as a dictionary, the form it has in a chat file and in the one-file
  application: each of the six keys present or not.
\<close>

record msg_dict =
  d_id :: "pystr option"
  d_sender :: "pystr option"
  d_text :: "pystr option"
  d_timestamp :: "pystr option"
  d_type :: "pystr option"
  d_photo_path :: "pystr option"

text \<open>The content of a chat file: what \<^verbatim>\<open>save_chat_history\<close> dumps as JSON.\<close>

record chat_data =
  cd_chat_id :: pystr
  cd_chat_type :: pystr
  cd_character_id :: "pystr option"
  cd_messages :: "msg_dict list"

text \<open>The id and the timestamp a new message gets, both read from the clock when the
  message is made: an input of the model.\<close>

record stamp =
  st_id :: pystr
  st_iso :: pystr


section \<open>\<^verbatim>\<open>ChatManager\<close> (core/chat\_manager.py)\<close>

text \<open>The three dictionaries of a \<^verbatim>\<open>ChatManager\<close>, and the files of the chats
  directory by their paths.\<close>

record chat_manager =
  characters :: "pystr \<rightharpoonup> Character"
  groups :: "pystr \<rightharpoonup> Group"
  chats :: "pystr \<rightharpoonup> Message list"
  chat_files :: "pystr \<rightharpoonup> chat_data"

text \<open>\<^verbatim>\<open>os.path.join(CHATS_DIR, f"{chat_id}.json")\<close> with \<^verbatim>\<open>CHATS_DIR = "chats"\<close>.\<close>

definition chat_path :: "pystr \<Rightarrow> pystr" where
  "chat_path chat_id = posix_join (asc ''chats'') [chat_id @ asc ''.json'']"

text \<open>The dictionary \<^verbatim>\<open>save_chat_history\<close> makes of a message: the key
  \<^verbatim>\<open>photo_path\<close> only when the path is not empty.\<close>

definition msg_to_dict :: "Message \<Rightarrow> msg_dict" where
  "msg_to_dict msg =
     \<lparr>d_id = Some (msg_id msg), d_sender = Some (sender msg), d_text = Some (msg_text msg),
      d_timestamp = Some (timestamp msg), d_type = Some (msg_type msg),
      d_photo_path = (if photo_path msg \<noteq> [] then Some (photo_path msg) else None)\<rparr>"

definition save_chat_history :: "chat_manager \<Rightarrow> pystr \<Rightarrow> chat_manager" where
  "save_chat_history cm chat_id =
     (case chats cm chat_id of
        None \<Rightarrow> cm
      | Some msgs \<Rightarrow>
          (let chat_type = (if groups cm chat_id \<noteq> None then asc ''group'' else asc ''private'');
               character_id = (if chat_type = asc ''group'' then None else Some chat_id);
               messages_data = map msg_to_dict (py_last_n MAX_MESSAGES_IN_HISTORY msgs)
           in cm\<lparr>chat_files := (chat_files cm)(chat_path chat_id \<mapsto>
                   \<lparr>cd_chat_id = chat_id, cd_chat_type = chat_type,
                    cd_character_id = character_id, cd_messages = messages_data\<rparr>)\<rparr>))"

text \<open>\<^verbatim>\<open>add_message\<close>: the new state and the message made.\<close>

definition new_message :: "stamp \<Rightarrow> pystr \<Rightarrow> pystr \<Rightarrow> pystr \<Rightarrow> pystr \<Rightarrow> Message" where
  "new_message now sender_id body kind path =
     \<lparr>msg_id = st_id now, sender = sender_id, msg_text = body, timestamp = st_iso now,
      msg_type = kind, photo_path = path\<rparr>"

definition add_message ::
  "chat_manager \<Rightarrow> stamp \<Rightarrow> pystr \<Rightarrow> pystr \<Rightarrow> pystr \<Rightarrow> pystr \<Rightarrow> pystr \<Rightarrow> chat_manager \<times> Message"
where
  "add_message cm now chat_id sender_id body kind path =
     (let old = (case chats cm chat_id of None \<Rightarrow> [] | Some msgs \<Rightarrow> msgs);
          msg = new_message now sender_id body kind path;
          cm' = cm\<lparr>chats := (chats cm)(chat_id \<mapsto> old @ [msg])\<rparr>
      in (save_chat_history cm' chat_id, msg))"

text \<open>The call \<^verbatim>\<open>add_message(chat_id, sender, text)\<close> of the chat area: the kind
  defaults to \<^verbatim>\<open>'text'\<close>, the photo path to the empty string.\<close>

definition add_text_message :: "chat_manager \<Rightarrow> stamp \<Rightarrow> pystr \<Rightarrow> pystr \<Rightarrow> pystr \<Rightarrow> chat_manager \<times> Message"
where
  "add_text_message cm now chat_id sender_id body =
     add_message cm now chat_id sender_id body (asc ''text'') []"

text \<open>The user's display name in a prompt, twelve Cyrillic letters.\<close>

definition USER_NAME :: pystr where
  "USER_NAME = [1055, 1086, 1083, 1100, 1079, 1086, 1074, 1072, 1090, 1077, 1083, 1100]"

text \<open>The header above the history, a Cyrillic phrase that ends in a colon.\<close>

definition HISTORY_HEADER :: pystr where
  "HISTORY_HEADER = [1048, 1089, 1090, 1086, 1088, 1080, 1103, 32, 1087, 1077, 1088, 1077, 1087,
     1080, 1089, 1082, 1080, 58]"

text \<open>The closing instruction of \<^verbatim>\<open>ChatManager.build_prompt\<close>.\<close>

definition CM_CLOSING :: pystr where
  "CM_CLOSING = [1054, 1090, 1074, 1077, 1090, 1100, 32, 1085, 1072, 32, 1087, 1086, 1089, 1083,
     1077, 1076, 1085, 1077, 1077, 32, 1089, 1086, 1086, 1073, 1097, 1077, 1085, 1080, 1077, 46]"

text \<open>\<^verbatim>\<open>self.characters.get(m, Character(m, m, '', '', [])).name\<close>.\<close>

definition cm_name :: "chat_manager \<Rightarrow> pystr \<Rightarrow> pystr" where
  "cm_name cm m = (case characters cm m of None \<Rightarrow> m | Some c \<Rightarrow> char_name c)"

text \<open>A line of the history:
  \<^verbatim>\<open>f"{sender_name}: {msg.text}\n"\<close>, the sender's name the user's word for
  \<^verbatim>\<open>'user'\<close> and the character's name otherwise.\<close>

definition cm_line :: "chat_manager \<Rightarrow> Message \<Rightarrow> pystr" where
  "cm_line cm msg =
     (if sender msg = asc ''user'' then USER_NAME else cm_name cm (sender msg)) @
     asc '': '' @ msg_text msg @ [10]"

text \<open>The loop over the messages of \<^verbatim>\<open>ChatManager.build_prompt\<close>: only a message
  of kind \<^verbatim>\<open>'text'\<close> adds a line.\<close>

fun cm_history :: "chat_manager \<Rightarrow> Message list \<Rightarrow> pystr \<Rightarrow> pystr" where
  "cm_history cm [] history_text = history_text"
| "cm_history cm (msg # msgs) history_text =
     cm_history cm msgs
       (if msg_type msg = asc ''text'' then history_text @ cm_line cm msg else history_text)"

text \<open>The keyword arguments of the group template.\<close>

definition group_kwargs :: "pystr \<Rightarrow> pystr \<Rightarrow> (pystr \<rightharpoonup> pystr)" where
  "group_kwargs gname mnames = [asc ''group_name'' \<mapsto> gname, asc ''members'' \<mapsto> mnames]"

text \<open>The history block of \<^verbatim>\<open>ChatManager.build_prompt\<close>.\<close>

definition cm_history_text :: "chat_manager \<Rightarrow> pystr \<Rightarrow> pystr" where
  "cm_history_text cm chat_id =
     cm_history cm
       (py_last_n MAX_MESSAGES_FOR_API (case chats cm chat_id of None \<Rightarrow> [] | Some msgs \<Rightarrow> msgs))
       []"

text \<open>\<^verbatim>\<open>ChatManager.build_prompt\<close>: the prompt, or the exception of \<^verbatim>\<open>format\<close>.\<close>

definition cm_build_prompt ::
  "(pystr \<Rightarrow> pystr \<Rightarrow> py_error + pystr) \<Rightarrow> chat_manager \<Rightarrow> pystr \<Rightarrow> Character \<Rightarrow> bool \<Rightarrow>
     py_error + pystr"
where
  "cm_build_prompt other cm chat_id character is_group =
     (let system_prompt = (if is_group then group_prompt character else private_prompt character);
          formatted =
            (case (if is_group then groups cm chat_id else None) of
               None \<Rightarrow> Inr system_prompt
             | Some g \<Rightarrow>
                 py_format other
                   (group_kwargs (group_name g)
                      (py_join (asc '', '') (map (cm_name cm) (members g))))
                   system_prompt)
      in case formatted of
           Inl e \<Rightarrow> Inl e
         | Inr system_prompt' \<Rightarrow>
             Inr (system_prompt' @ [10, 10] @ HISTORY_HEADER @ [10] @
                  cm_history_text cm chat_id @ [10] @ CM_CLOSING))"


section \<open>\<^verbatim>\<open>MessengerApp\<close> (messenger\_app.py)\<close>

text \<open>
  The one-file application keeps characters, groups and messages as the dictionaries
  read from YAML and JSON. A dictionary is a record of its keys, each present or not;
  \<^verbatim>\<open>d[key]\<close> on an absent key raises \<^verbatim>\<open>KeyError\<close>, \<^verbatim>\<open>d.get(key, default)\<close> gives the
  default.
\<close>

definition py_item :: "string \<Rightarrow> 'a option \<Rightarrow> py_error + 'a" where
  "py_item key v = (case v of None \<Rightarrow> Inl (KeyError (asc key)) | Some x \<Rightarrow> Inr x)"

definition py_get :: "'a option \<Rightarrow> 'a \<Rightarrow> 'a" where
  "py_get v dflt = (case v of None \<Rightarrow> dflt | Some x \<Rightarrow> x)"

record api_settings_dict =
  as_provider :: "pystr option"
  as_model :: "pystr option"
  as_temperature :: "real option"
  as_max_tokens :: "int option"

record char_dict =
  c_id :: "pystr option"
  c_name :: "pystr option"
  c_private_prompt :: "pystr option"
  c_group_prompt :: "pystr option"
  c_photos :: "photo_dict list option"
  c_api_settings :: "api_settings_dict option"

record group_dict =
  g_id :: "pystr option"
  g_name :: "pystr option"
  g_members :: "pystr list option"
  g_group_context :: "pystr option"

text \<open>A dictionary is false in a condition when it has no key.\<close>

definition char_falsy :: "char_dict \<Rightarrow> bool" where
  "char_falsy c \<longleftrightarrow>
     c_id c = None \<and> c_name c = None \<and> c_private_prompt c = None \<and> c_group_prompt c = None \<and>
     c_photos c = None \<and> c_api_settings c = None"

definition group_falsy :: "group_dict \<Rightarrow> bool" where
  "group_falsy g \<longleftrightarrow>
     g_id g = None \<and> g_name g = None \<and> g_members g = None \<and> g_group_context g = None"

text \<open>
  The attributes of the application that the turn reads and writes: the three
  dictionaries, the open chat, the typing marks, the files of the chats directory, and
  the seconds slept in \<^verbatim>\<open>time.sleep\<close>. The worker thread is modelled running alone: the
  open chat does not change during a turn.
\<close>

record app =
  app_characters :: "pystr \<rightharpoonup> char_dict"
  app_groups :: "pystr \<rightharpoonup> group_dict"
  app_chats :: "pystr \<rightharpoonup> msg_dict list"
  current_chat_id :: pystr
  typing_indicators :: "pystr \<rightharpoonup> bool"
  app_chat_files :: "pystr \<rightharpoonup> chat_data"
  slept :: nat

text \<open>
  What the turn takes from outside the program: the reply of
  \<^verbatim>\<open>self.api.send_message(prompt, character)\<close> (a text, or an exception), the part of
  \<^verbatim>\<open>str.format\<close> left open above, \<^verbatim>\<open>str.isalnum\<close> on the code points from 128 on (for
  \<^verbatim>\<open>\w\<close> of the regular expression), \<^verbatim>\<open>os.path.exists\<close>, the clock reading for the
  message of the \<open>i\<close>-th member of a turn, and \<^verbatim>\<open>str(e)\<close> of an exception.
\<close>

record world =
  w_send :: "pystr \<Rightarrow> char_dict \<Rightarrow> py_error + pystr"
  w_format_other :: "pystr \<Rightarrow> pystr \<Rightarrow> py_error + pystr"
  w_isalnum :: "nat \<Rightarrow> bool"
  w_exists :: "pystr \<Rightarrow> bool"
  w_clock :: "nat \<Rightarrow> stamp"
  w_str :: "py_error \<Rightarrow> pystr"

text \<open>\<^verbatim>\<open>os.path.join(CHATS_DIR, f"{chat_id}.json")\<close> with \<^verbatim>\<open>CHATS_DIR = "chats_1"\<close>.\<close>

definition app_chat_path :: "pystr \<Rightarrow> pystr" where
  "app_chat_path chat_id = posix_join (asc ''chats_1'') [chat_id @ asc ''.json'']"

text \<open>\<^verbatim>\<open>MessengerApp.save_chat_history\<close>.\<close>

definition app_save_chat_history :: "app \<Rightarrow> pystr \<Rightarrow> app" where
  "app_save_chat_history a chat_id =
     (let is_group = (app_groups a chat_id \<noteq> None) in
      a\<lparr>app_chat_files := (app_chat_files a)(app_chat_path chat_id \<mapsto>
           \<lparr>cd_chat_id = chat_id,
            cd_chat_type = (if is_group then asc ''group'' else asc ''private''),
            cd_character_id = (if is_group then None else Some chat_id),
            cd_messages = py_last_n MAX_MESSAGES_IN_HISTORY (py_get (app_chats a chat_id) [])\<rparr>)\<rparr>)"

text \<open>The note a photo message leaves in the history of a prompt: a Cyrillic phrase in
  square brackets.\<close>

definition PHOTO_NOTE :: pystr where
  "PHOTO_NOTE = [91, 1086, 1090, 1087, 1088, 1072, 1074, 1080, 1083, 40, 1072, 41, 32, 1092, 1086,
     1090, 1086, 93]"

text \<open>The closing instruction of \<^verbatim>\<open>MessengerApp.build_prompt\<close>.\<close>

definition APP_CLOSING :: pystr where
  "APP_CLOSING = [1054, 1090, 1074, 1077, 1090, 1100, 32, 1085, 1072, 32, 1087, 1086, 1089, 1083,
     1077, 1076, 1085, 1077, 1077, 32, 1089, 1086, 1086, 1073, 1097, 1077, 1085, 1080, 1077, 32,
     1087, 1086, 1083, 1100, 1079, 1086, 1074, 1072, 1090, 1077, 1083, 1103, 32, 1077, 1089, 1090,
     1077, 1089, 1090, 1074, 1077, 1085, 1085, 1086, 32, 1080, 32, 1087, 1086, 32, 1093, 1072,
     1088, 1072, 1082, 1090, 1077, 1088, 1091, 32, 1087, 1077, 1088, 1089, 1086, 1085, 1072, 1078,
     1072, 46]"

text \<open>\<^verbatim>\<open>self.characters.get(m, {}).get('name', m)\<close>.\<close>

definition app_name :: "app \<Rightarrow> pystr \<Rightarrow> pystr" where
  "app_name a m = (case app_characters a m of None \<Rightarrow> m | Some c \<Rightarrow> py_get (c_name c) m)"

text \<open>The name before the colon of a history line:
  \<^verbatim>\<open>"\<dots>" if msg['sender'] == 'user' else self.characters.get(msg['sender'], {}).get('name', msg['sender'])\<close>.\<close>

definition app_sender_name :: "app \<Rightarrow> msg_dict \<Rightarrow> py_error + pystr" where
  "app_sender_name a msg =
     (case py_item ''sender'' (d_sender msg) of
        Inl e \<Rightarrow> Inl e
      | Inr s \<Rightarrow> Inr (if s = asc ''user'' then USER_NAME else app_name a s))"

text \<open>The loop over the recent messages of \<^verbatim>\<open>MessengerApp.build_prompt\<close>: a
  line for a message of type \<^verbatim>\<open>'text'\<close>, a line with the photo note for one of type
  \<^verbatim>\<open>'photo'\<close>, nothing for another type.\<close>

fun app_history :: "app \<Rightarrow> msg_dict list \<Rightarrow> pystr \<Rightarrow> py_error + pystr" where
  "app_history a [] history_text = Inr history_text"
| "app_history a (msg # msgs) history_text =
     (case py_item ''type'' (d_type msg) of
        Inl e \<Rightarrow> Inl e
      | Inr kind \<Rightarrow>
          if kind = asc ''text'' then
            (case app_sender_name a msg of
               Inl e \<Rightarrow> Inl e
             | Inr sender_name \<Rightarrow>
                 (case py_item ''text'' (d_text msg) of
                    Inl e \<Rightarrow> Inl e
                  | Inr body \<Rightarrow>
                      app_history a msgs (history_text @ sender_name @ asc '': '' @ body @ [10])))
          else if kind = asc ''photo'' then
            (case app_sender_name a msg of
               Inl e \<Rightarrow> Inl e
             | Inr sender_name \<Rightarrow>
                 app_history a msgs (history_text @ sender_name @ asc '': '' @ PHOTO_NOTE @ [10]))
          else app_history a msgs history_text)"

text \<open>The history block of \<^verbatim>\<open>MessengerApp.build_prompt\<close>.\<close>

definition app_history_text :: "app \<Rightarrow> py_error + pystr" where
  "app_history_text a =
     app_history a
       (py_last_n MAX_MESSAGES_FOR_API (py_get (app_chats a (current_chat_id a)) [])) []"

text \<open>\<^verbatim>\<open>MessengerApp.build_prompt(character, chat_type, group_context)\<close>.\<close>

definition app_build_prompt ::
  "world \<Rightarrow> app \<Rightarrow> char_dict \<Rightarrow> pystr \<Rightarrow> group_dict option \<Rightarrow> py_error + pystr"
where
  "app_build_prompt w a character chat_type group_ctx =
     (let formatted =
            (if chat_type = asc ''private'' then Inr (py_get (c_private_prompt character) [])
             else
               (case group_ctx of
                  None \<Rightarrow> Inr (py_get (c_group_prompt character) [])
                | Some g \<Rightarrow>
                    if group_falsy g then Inr (py_get (c_group_prompt character) [])
                    else
                      py_format (w_format_other w)
                        (group_kwargs (py_get (g_name g) [])
                           (py_join (asc '', '') (map (app_name a) (py_get (g_members g) []))))
                        (py_get (c_group_prompt character) [])))
      in case formatted of
           Inl e \<Rightarrow> Inl e
         | Inr system_prompt \<Rightarrow>
             (case app_history_text a of
                Inl e \<Rightarrow> Inl e
              | Inr history_text \<Rightarrow>
                  Inr (system_prompt @ [10, 10] @ HISTORY_HEADER @ [10] @ history_text @
                       [10, 10] @ APP_CLOSING)))"

text \<open>
  \<^verbatim>\<open>re.search(r'\[PHOTO:(\w+)\]', response_text)\<close>: the leftmost position where the
  pattern matches, group 1 of the match. After \<^verbatim>\<open>[PHOTO:\<close> the pattern takes the
  longest run of word characters; the character behind the run is not a word character,
  so no shorter run can be followed by \<^verbatim>\<open>]\<close> and only the longest is tried.
\<close>

text \<open>The ASCII word characters: digits, letters and the underscore. Whether a
  character outside ASCII is a word character is an input of the model.\<close>

definition is_ident_char :: "nat \<Rightarrow> bool" where
  "is_ident_char c \<longleftrightarrow>
     (48 \<le> c \<and> c \<le> 57) \<or> (65 \<le> c \<and> c \<le> 90) \<or> c = 95 \<or> (97 \<le> c \<and> c \<le> 122)"

definition is_word_char :: "(nat \<Rightarrow> bool) \<Rightarrow> nat \<Rightarrow> bool" where
  "is_word_char isalnum c = (if c < 128 then is_ident_char c else isalnum c)"

definition match_photo_here :: "(nat \<Rightarrow> bool) \<Rightarrow> pystr \<Rightarrow> pystr option" where
  "match_photo_here isalnum s =
     (if prefix (asc ''[PHOTO:'') s then
        (let r = drop 7 s; token = takeWhile (is_word_char isalnum) r in
         if token \<noteq> [] \<and> prefix [93] (dropWhile (is_word_char isalnum) r) then Some token
         else None)
      else None)"

fun re_search_photo :: "(nat \<Rightarrow> bool) \<Rightarrow> pystr \<Rightarrow> pystr option" where
  "re_search_photo isalnum [] = None"
| "re_search_photo isalnum (c # cs) =
     (case match_photo_here isalnum (c # cs) of
        Some token \<Rightarrow> Some token
      | None \<Rightarrow> re_search_photo isalnum cs)"

text \<open>\<^verbatim>\<open>self.chats[self.current_chat_id].append(message)\<close>: \<^verbatim>\<open>KeyError\<close> when the open
  chat has no list.\<close>

definition app_append :: "app \<Rightarrow> msg_dict \<Rightarrow> py_error + app" where
  "app_append a message =
     (case app_chats a (current_chat_id a) of
        None \<Rightarrow> Inl (KeyError (current_chat_id a))
      | Some msgs \<Rightarrow> Inr (a\<lparr>app_chats := (app_chats a)(current_chat_id a \<mapsto> msgs @ [message])\<rparr>))"

text \<open>The search loop of \<^verbatim>\<open>send_character_photo\<close>: the path of the first photo whose
  file name contains the token, \<open>None\<close> when there is none.\<close>

fun find_photo :: "char_dict \<Rightarrow> pystr \<Rightarrow> photo_dict list \<Rightarrow> py_error + pystr option" where
  "find_photo character photo_filename [] = Inr None"
| "find_photo character photo_filename (photo # rest) =
     (case py_item ''filename'' (p_filename photo) of
        Inl e \<Rightarrow> Inl e
      | Inr fname \<Rightarrow>
          if py_in photo_filename fname then
            (case py_item ''id'' (c_id character) of
               Inl e \<Rightarrow> Inl e
             | Inr cid \<Rightarrow> Inr (Some (posix_join (asc ''characters'') [cid, asc ''photos'', fname])))
          else find_photo character photo_filename rest)"

text \<open>\<^verbatim>\<open>MessengerApp.send_character_photo\<close>.\<close>

definition send_character_photo ::
  "world \<Rightarrow> app \<Rightarrow> stamp \<Rightarrow> char_dict \<Rightarrow> pystr \<Rightarrow> pystr \<Rightarrow> py_error + app"
where
  "send_character_photo w a now character photo_filename sender_id =
     (case find_photo character photo_filename (py_get (c_photos character) []) of
        Inl e \<Rightarrow> Inl e
      | Inr found \<Rightarrow>
          (case found of
             None \<Rightarrow> Inr a
           | Some path \<Rightarrow>
               if path = [] \<or> \<not> w_exists w path then Inr a
               else
                 (case app_append a
                         \<lparr>d_id = Some (st_id now), d_sender = Some sender_id, d_text = None,
                          d_timestamp = Some (st_iso now), d_type = Some (asc ''photo''),
                          d_photo_path = Some path\<rparr> of
                    Inl e \<Rightarrow> Inl e
                  | Inr a' \<Rightarrow> Inr (app_save_chat_history a' (current_chat_id a')))))"

text \<open>\<^verbatim>\<open>MessengerApp.process_character_response\<close>.\<close>

definition process_character_response ::
  "world \<Rightarrow> app \<Rightarrow> stamp \<Rightarrow> pystr \<Rightarrow> char_dict \<Rightarrow> pystr \<Rightarrow> py_error + app"
where
  "process_character_response w a now response_text character sender_id =
     (case (if py_in (asc ''[PHOTO:'') response_text
            then re_search_photo (w_isalnum w) response_text else None) of
        Some photo_filename \<Rightarrow> send_character_photo w a now character photo_filename sender_id
      | None \<Rightarrow>
          (case app_append a
                  \<lparr>d_id = Some (st_id now), d_sender = Some sender_id,
                   d_text = Some response_text, d_timestamp = Some (st_iso now),
                   d_type = Some (asc ''text''), d_photo_path = None\<rparr> of
             Inl e \<Rightarrow> Inl e
           | Inr a' \<Rightarrow> Inr (app_save_chat_history a' (current_chat_id a'))))"

text \<open>
  The loop over the members of \<^verbatim>\<open>MessengerApp.handle_group_response\<close>, \<open>i\<close> the
  position of the member in the list. \<^verbatim>\<open>build_prompt\<close> is called before the
  \<^verbatim>\<open>try\<close>: its exception ends the loop and leaves the method. An exception of
  \<^verbatim>\<open>send_message\<close> or of \<^verbatim>\<open>process_character_response\<close> is caught and printed, and the
  loop goes on.
\<close>

fun group_loop ::
  "world \<Rightarrow> group_dict \<Rightarrow> nat \<Rightarrow> pystr list \<Rightarrow> app \<Rightarrow> py_error option \<times> app"
where
  "group_loop w g i [] a = (None, a)"
| "group_loop w g i (member_id # rest) a =
     (case app_characters a member_id of
        None \<Rightarrow> group_loop w g (Suc i) rest a
      | Some character \<Rightarrow>
          if char_falsy character then group_loop w g (Suc i) rest a
          else
            (case app_build_prompt w a character (asc ''group'') (Some g) of
               Inl e \<Rightarrow> (Some e, a)
             | Inr prompt \<Rightarrow>
                 (case w_send w prompt character of
                    Inl e \<Rightarrow> group_loop w g (Suc i) rest a
                  | Inr response_text \<Rightarrow>
                      if py_in (asc ''[IGNORE]'') response_text then group_loop w g (Suc i) rest a
                      else
                        (let a1 = a\<lparr>slept := slept a + 1\<rparr> in
                         case process_character_response w a1 (w_clock w i) response_text
                                character member_id of
                           Inl e \<Rightarrow> group_loop w g (Suc i) rest a1
                         | Inr a2 \<Rightarrow> group_loop w g (Suc i) rest a2))))"

text \<open>\<^verbatim>\<open>MessengerApp.handle_group_response\<close>.\<close>

definition handle_group_response :: "world \<Rightarrow> app \<Rightarrow> py_error option \<times> app" where
  "handle_group_response w a =
     (case app_groups a (current_chat_id a) of
        None \<Rightarrow> (None, a)
      | Some g \<Rightarrow>
          if group_falsy g then (None, a)
          else group_loop w g 0 (py_get (g_members g) []) a)"

text \<open>The opening of the error message of a private chat, \<^verbatim>\<open>[\<close>, a Cyrillic word,
  \<^verbatim>\<open>API:\<close> and a blank.\<close>

definition API_ERROR_OPEN :: pystr where
  "API_ERROR_OPEN = [91, 1054, 1096, 1080, 1073, 1082, 1072, 32, 65, 80, 73, 58, 32]"

text \<open>\<^verbatim>\<open>MessengerApp.handle_private_response\<close>: an exception of \<^verbatim>\<open>send_message\<close> or
  of \<^verbatim>\<open>process_character_response\<close> is answered with an error message in the chat,
  appended without saving.\<close>

definition handle_private_response :: "world \<Rightarrow> app \<Rightarrow> py_error option \<times> app" where
  "handle_private_response w a =
     (case app_characters a (current_chat_id a) of
        None \<Rightarrow> (None, a)
      | Some character \<Rightarrow>
          if char_falsy character then (None, a)
          else
            (case app_build_prompt w a character (asc ''private'') None of
               Inl e \<Rightarrow> (Some e, a)
             | Inr prompt \<Rightarrow>
                 (case (case w_send w prompt character of
                          Inl e \<Rightarrow> Inl e
                        | Inr response_text \<Rightarrow>
                            process_character_response w a (w_clock w 0) response_text character
                              (current_chat_id a)) of
                    Inr a' \<Rightarrow> (None, a')
                  | Inl e \<Rightarrow>
                      (case app_append a
                              \<lparr>d_id = Some (st_id (w_clock w 1)),
                               d_sender = Some (current_chat_id a),
                               d_text = Some (API_ERROR_OPEN @ w_str w e @ [93]),
                               d_timestamp = Some (st_iso (w_clock w 1)),
                               d_type = Some (asc ''text''), d_photo_path = None\<rparr> of
                         Inl e' \<Rightarrow> (Some e', a)
                       | Inr a' \<Rightarrow> (None, a')))))"

text \<open>\<^verbatim>\<open>MessengerApp.get_character_response\<close>: the typing mark is set, the turn runs,
  and the mark is cleared when the turn has returned without an exception.\<close>

definition get_character_response :: "world \<Rightarrow> app \<Rightarrow> py_error option \<times> app" where
  "get_character_response w a =
     (let a1 = a\<lparr>typing_indicators := (typing_indicators a)(current_chat_id a \<mapsto> True)\<rparr>;
          (raised, a2) =
            (if app_groups a1 (current_chat_id a1) \<noteq> None then handle_group_response w a1
             else handle_private_response w a1)
      in case raised of
           Some e \<Rightarrow> (Some e, a2)
         | None \<Rightarrow>
             (None, a2\<lparr>typing_indicators := (typing_indicators a2)(current_chat_id a2 \<mapsto> False)\<rparr>))"


section \<open>The turn of the refactored application (ui/chat\_area.py)\<close>

text \<open>
  What \<^verbatim>\<open>ChatArea.get_character_response\<close> takes from outside: the reply of
  \<^verbatim>\<open>self.api_manager.send_message(prompt)\<close>, the open part of \<^verbatim>\<open>str.format\<close>, and the
  clock reading for the message of the \<open>i\<close>-th member.
\<close>

record core_world =
  cw_send :: "pystr \<Rightarrow> py_error + pystr"
  cw_format_other :: "pystr \<Rightarrow> pystr \<Rightarrow> py_error + pystr"
  cw_clock :: "nat \<Rightarrow> stamp"

text \<open>The loop over the members of a group. As in the one-file application,
  \<^verbatim>\<open>build_prompt\<close> is called before the \<^verbatim>\<open>try\<close>.\<close>

fun area_group_loop ::
  "core_world \<Rightarrow> pystr \<Rightarrow> nat \<Rightarrow> pystr list \<Rightarrow> chat_manager \<Rightarrow> py_error option \<times> chat_manager"
where
  "area_group_loop cw chat_id i [] cm = (None, cm)"
| "area_group_loop cw chat_id i (member_id # rest) cm =
     (case characters cm member_id of
        None \<Rightarrow> area_group_loop cw chat_id (Suc i) rest cm
      | Some character \<Rightarrow>
          (case cm_build_prompt (cw_format_other cw) cm chat_id character True of
             Inl e \<Rightarrow> (Some e, cm)
           | Inr prompt \<Rightarrow>
               (case cw_send cw prompt of
                  Inl e \<Rightarrow> area_group_loop cw chat_id (Suc i) rest cm
                | Inr response \<Rightarrow>
                    if py_in (asc ''[IGNORE]'') response
                    then area_group_loop cw chat_id (Suc i) rest cm
                    else area_group_loop cw chat_id (Suc i) rest
                           (fst (add_text_message cm (cw_clock cw i) chat_id member_id
                                   response)))))"

text \<open>\<^verbatim>\<open>ChatArea.get_character_response\<close> for the open chat \<open>chat_id\<close>.\<close>

definition area_get_character_response ::
  "core_world \<Rightarrow> pystr \<Rightarrow> chat_manager \<Rightarrow> py_error option \<times> chat_manager"
where
  "area_get_character_response cw chat_id cm =
     (case groups cm chat_id of
        Some g \<Rightarrow> area_group_loop cw chat_id 0 (members g) cm
      | None \<Rightarrow>
          (case characters cm chat_id of
             None \<Rightarrow> (None, cm)
           | Some character \<Rightarrow>
               (case cm_build_prompt (cw_format_other cw) cm chat_id character False of
                  Inl e \<Rightarrow> (Some e, cm)
                | Inr prompt \<Rightarrow>
                    (case cw_send cw prompt of
                       Inl e \<Rightarrow> (None, cm)
                     | Inr response \<Rightarrow>
                         (None, fst (add_text_message cm (cw_clock cw 0) chat_id chat_id
                                       response))))))"


section \<open>Dispatch to the providers (api\_handler.py, core/api\_manager.py)\<close>

text \<open>An entry of the providers file: the keys \<^verbatim>\<open>api\<close>, \<^verbatim>\<open>key\<close> and
  \<^verbatim>\<open>models\<close>, each present or not.\<close>

record provider_dict =
  pd_api :: "pystr option"
  pd_key :: "pystr option"
  pd_models :: "pystr list option"

text \<open>
  A call of a client library by a send function: the library (\<^verbatim>\<open>anthropic\<close>,
  \<^verbatim>\<open>google.generativeai\<close>, \<^verbatim>\<open>requests\<close> or \<^verbatim>\<open>openai\<close>), the address (empty for a
  library with a built-in address), the key, and the model, prompt and tunables. The
  source reaches the network through these calls only, so a result with no call is a
  result without network activity. Whether a call does reach the network is behaviour of
  the library and not of the source: a library may raise before it sends anything, for
  an empty key or a malformed address.
\<close>

record lib_call =
  lc_library :: pystr
  lc_url :: pystr
  lc_key :: pystr
  lc_model :: pystr
  lc_prompt :: pystr
  lc_temperature :: real
  lc_max_tokens :: int

text \<open>
  What a call gives, as far as the send functions tell the cases apart:
  \<^item> a response whose content, read the way the function reads it, is a text;
  \<^item> a response without content: the test \<^verbatim>\<open>hasattr(response, \<dots>)\<close> of
    \<^verbatim>\<open>MessengerAPI.send_claude\<close> and \<^verbatim>\<open>send_gemini\<close> fails, and reading the content
    without a test raises the given exception (\<^verbatim>\<open>KeyError\<close> for a missing key,
    \<^verbatim>\<open>IndexError\<close> for an empty list, \<^verbatim>\<open>AttributeError\<close>, \<^verbatim>\<open>TypeError\<close>);
  \<^item> a builtin exception raised inside the \<^verbatim>\<open>try\<close> in another way, by the library or
    by reading a response that passed the test;
  \<^item> an exception of a class of the library's own (for \<^verbatim>\<open>requests\<close>, a
    \<^verbatim>\<open>RequestException\<close>), with its \<^verbatim>\<open>str\<close>.
\<close>

datatype lib_reply = Content pystr | NoContent py_error | Fault py_error | Raised pystr

text \<open>
  What a send function takes from outside: whether a library can be imported and the
  \<^verbatim>\<open>str\<close> of the \<^verbatim>\<open>ImportError\<close> when not, what a call of a library gives, and
  \<^verbatim>\<open>str(e)\<close> of a builtin exception. What a call gives is not constrained by the model.
\<close>

record net_world =
  nw_installed :: "pystr \<Rightarrow> bool"
  nw_import_error :: "pystr \<Rightarrow> pystr"
  nw_reply :: "lib_call \<Rightarrow> lib_reply"
  nw_str :: "py_error \<Rightarrow> pystr"

text \<open>The result of a send function: the text returned or the exception that leaves
  it, and the calls of client libraries it has made.\<close>

type_synonym outcome = "(py_error + pystr) \<times> lib_call list"

text \<open>The opening of both provider errors of
  \<^verbatim>\<open>MessengerAPI.send_message\<close>: two Cyrillic words and an
  apostrophe.\<close>

definition ERR_PROVIDER_OPEN :: pystr where
  "ERR_PROVIDER_OPEN = [1054, 1096, 1080, 1073, 1082, 1072, 58, 32, 1055, 1088, 1086, 1074, 1072, 1081, 1076,
       1077, 1088, 32, 39]"

text \<open>The end of the error for a provider that is not in the configuration.\<close>

definition ERR_NOT_FOUND_CLOSE :: pystr where
  "ERR_NOT_FOUND_CLOSE = [39, 32, 1085, 1077, 32, 1085, 1072, 1081, 1076, 1077, 1085, 32, 1074, 32, 1082, 1086,
       1085, 1092, 1080, 1075, 1091, 1088, 1072, 1094, 1080, 1080, 46]"

text \<open>The end of the error for a provider without a send function.\<close>

definition ERR_UNSUPPORTED_CLOSE :: pystr where
  "ERR_UNSUPPORTED_CLOSE = [39, 32, 1085, 1077, 32, 1087, 1086, 1076, 1076, 1077, 1088, 1078, 1080, 1074, 1072,
       1077, 1090, 1089, 1103, 46]"

text \<open>The opening of the error both \<^verbatim>\<open>send_message\<close> methods return for
  an exception.\<close>

definition ERR_API :: pystr where
  "ERR_API = [1054, 1096, 1080, 1073, 1082, 1072, 32, 65, 80, 73, 58, 32]"

text \<open>The errors of \<^verbatim>\<open>MessengerAPI.send_claude\<close>: library missing, key
  missing, empty reply, exception.\<close>

definition ERR_NO_ANTHROPIC :: pystr where
  "ERR_NO_ANTHROPIC = [1054, 1096, 1080, 1073, 1082, 1072, 58, 32, 1041, 1080, 1073, 1083, 1080, 1086, 1090,
       1077, 1082, 1072, 32, 39, 97, 110, 116, 104, 114, 111, 112, 105, 99, 39, 32, 1085,
       1077, 32, 1091, 1089, 1090, 1072, 1085, 1086, 1074, 1083, 1077, 1085, 1072, 46,
       32, 1042, 1099, 1087, 1086, 1083, 1085, 1080, 1090, 1077, 58, 32, 112, 105, 112,
       32, 105, 110, 115, 116, 97, 108, 108, 32, 97, 110, 116, 104, 114, 111, 112, 105,
       99]"

definition ERR_NO_CLAUDE_KEY :: pystr where
  "ERR_NO_CLAUDE_KEY = [1054, 1096, 1080, 1073, 1082, 1072, 58, 32, 65, 80, 73, 45, 1082, 1083, 1102, 1095,
       32, 1076, 1083, 1103, 32, 67, 108, 97, 117, 100, 101, 32, 1085, 1077, 32, 1091,
       1082, 1072, 1079, 1072, 1085, 46]"

definition ERR_CLAUDE_EMPTY :: pystr where
  "ERR_CLAUDE_EMPTY = [1054, 1096, 1080, 1073, 1082, 1072, 58, 32, 67, 108, 97, 117, 100, 101, 32, 1074,
       1077, 1088, 1085, 1091, 1083, 32, 1087, 1091, 1089, 1090, 1086, 1081, 32, 1086,
       1090, 1074, 1077, 1090, 46]"

definition ERR_API_CLAUDE :: pystr where
  "ERR_API_CLAUDE = [1054, 1096, 1080, 1073, 1082, 1072, 32, 65, 80, 73, 32, 67, 108, 97, 117, 100, 101,
       58, 32]"

text \<open>The errors of \<^verbatim>\<open>MessengerAPI.send_gemini\<close>.\<close>

definition ERR_NO_GENAI :: pystr where
  "ERR_NO_GENAI = [1054, 1096, 1080, 1073, 1082, 1072, 58, 32, 1041, 1080, 1073, 1083, 1080, 1086, 1090,
       1077, 1082, 1072, 32, 39, 103, 111, 111, 103, 108, 101, 45, 103, 101, 110, 101,
       114, 97, 116, 105, 118, 101, 97, 105, 39, 32, 1085, 1077, 32, 1091, 1089, 1090,
       1072, 1085, 1086, 1074, 1083, 1077, 1085, 1072, 46, 32, 1042, 1099, 1087, 1086,
       1083, 1085, 1080, 1090, 1077, 58, 32, 112, 105, 112, 32, 105, 110, 115, 116, 97,
       108, 108, 32, 103, 111, 111, 103, 108, 101, 45, 103, 101, 110, 101, 114, 97, 116,
       105, 118, 101, 97, 105]"

definition ERR_NO_GEMINI_KEY :: pystr where
  "ERR_NO_GEMINI_KEY = [1054, 1096, 1080, 1073, 1082, 1072, 58, 32, 65, 80, 73, 45, 1082, 1083, 1102, 1095,
       32, 1076, 1083, 1103, 32, 71, 101, 109, 105, 110, 105, 32, 1085, 1077, 32, 1091,
       1082, 1072, 1079, 1072, 1085, 46]"

definition ERR_GEMINI_FORMAT :: pystr where
  "ERR_GEMINI_FORMAT = [1054, 1096, 1080, 1073, 1082, 1072, 58, 32, 71, 101, 109, 105, 110, 105, 32, 1074,
       1077, 1088, 1085, 1091, 1083, 32, 1085, 1077, 1086, 1078, 1080, 1076, 1072, 1085,
       1085, 1099, 1081, 32, 1092, 1086, 1088, 1084, 1072, 1090, 32, 1086, 1090, 1074,
       1077, 1090, 1072, 46]"

definition ERR_API_GEMINI :: pystr where
  "ERR_API_GEMINI = [1054, 1096, 1080, 1073, 1082, 1072, 32, 65, 80, 73, 32, 71, 101, 109, 105, 110, 105,
       58, 32]"

text \<open>The errors of \<^verbatim>\<open>send_openrouter\<close>,
  \<^verbatim>\<open>send_chutes\<close> and \<^verbatim>\<open>send_deepseek\<close> of
  \<^verbatim>\<open>MessengerAPI\<close>.\<close>

definition ERR_API_OPENROUTER :: pystr where
  "ERR_API_OPENROUTER = [1054, 1096, 1080, 1073, 1082, 1072, 32, 65, 80, 73, 32, 79, 112, 101, 110, 82, 111,
       117, 116, 101, 114, 58, 32]"

definition ERR_OPENROUTER_FORMAT :: pystr where
  "ERR_OPENROUTER_FORMAT = [1054, 1096, 1080, 1073, 1082, 1072, 58, 32, 1085, 1077, 1074, 1077, 1088, 1085, 1099,
       1081, 32, 1092, 1086, 1088, 1084, 1072, 1090, 32, 1086, 1090, 1074, 1077, 1090,
       1072, 32, 1086, 1090, 32, 79, 112, 101, 110, 82, 111, 117, 116, 101, 114, 46]"

definition ERR_API_CHUTES :: pystr where
  "ERR_API_CHUTES = [1054, 1096, 1080, 1073, 1082, 1072, 32, 65, 80, 73, 32, 67, 104, 117, 116, 101, 115,
       58, 32]"

definition ERR_NO_OPENAI :: pystr where
  "ERR_NO_OPENAI = [1054, 1096, 1080, 1073, 1082, 1072, 58, 32, 1041, 1080, 1073, 1083, 1080, 1086, 1090,
       1077, 1082, 1072, 32, 39, 111, 112, 101, 110, 97, 105, 39, 32, 1085, 1077, 32,
       1091, 1089, 1090, 1072, 1085, 1086, 1074, 1083, 1077, 1085, 1072, 46, 32, 1042,
       1099, 1087, 1086, 1083, 1085, 1080, 1090, 1077, 58, 32, 112, 105, 112, 32, 105,
       110, 115, 116, 97, 108, 108, 32, 111, 112, 101, 110, 97, 105]"

definition ERR_API_DEEPSEEK :: pystr where
  "ERR_API_DEEPSEEK = [1054, 1096, 1080, 1073, 1082, 1072, 32, 65, 80, 73, 32, 68, 101, 101, 112, 83, 101,
       101, 107, 58, 32]"

text \<open>The cleaning inside a \<^verbatim>\<open>try\<close> whose handler catches every exception and
  returns \<open>opening\<close> followed by \<^verbatim>\<open>str(e)\<close>.\<close>

definition cleaned_or ::
  "net_world \<Rightarrow> pystr \<Rightarrow> (pystr \<Rightarrow> py_error + pystr) \<Rightarrow> pystr \<Rightarrow> pystr"
where
  "cleaned_or nw opening cleaner raw =
     (case cleaner raw of Inl e \<Rightarrow> opening @ nw_str nw e | Inr t \<Rightarrow> t)"

text \<open>\<^verbatim>\<open>MessengerAPI.send_claude\<close>: the library is called only with a key that is not
  empty; a response that fails the test
  \<^verbatim>\<open>hasattr(response, "content") and response.content\<close> gives the text for an empty
  reply.\<close>

definition send_claude :: "net_world \<Rightarrow> pystr \<Rightarrow> pystr \<Rightarrow> pystr \<Rightarrow> real \<Rightarrow> int \<Rightarrow> outcome" where
  "send_claude nw prompt model api_key temperature max_tokens =
     (if \<not> nw_installed nw (asc ''anthropic'') then (Inr ERR_NO_ANTHROPIC, [])
      else if api_key = [] then (Inr ERR_NO_CLAUDE_KEY, [])
      else
        (let call = \<lparr>lc_library = asc ''anthropic'', lc_url = [], lc_key = api_key,
                      lc_model = model, lc_prompt = prompt, lc_temperature = temperature,
                      lc_max_tokens = max_tokens\<rparr>
         in (Inr (case nw_reply nw call of
                    Content t \<Rightarrow> cleaned_or nw ERR_API_CLAUDE clean_text t
                  | NoContent e \<Rightarrow> ERR_CLAUDE_EMPTY
                  | Fault e \<Rightarrow> ERR_API_CLAUDE @ nw_str nw e
                  | Raised m \<Rightarrow> ERR_API_CLAUDE @ m),
             [call])))"

text \<open>\<^verbatim>\<open>MessengerAPI.send_gemini\<close>, with the test \<^verbatim>\<open>hasattr(response, "text")\<close>.\<close>

definition send_gemini :: "net_world \<Rightarrow> pystr \<Rightarrow> pystr \<Rightarrow> pystr \<Rightarrow> real \<Rightarrow> int \<Rightarrow> outcome" where
  "send_gemini nw prompt model api_key temperature max_tokens =
     (if \<not> nw_installed nw (asc ''google.generativeai'') then (Inr ERR_NO_GENAI, [])
      else if api_key = [] then (Inr ERR_NO_GEMINI_KEY, [])
      else
        (let call = \<lparr>lc_library = asc ''google.generativeai'', lc_url = [], lc_key = api_key,
                      lc_model = model, lc_prompt = prompt, lc_temperature = temperature,
                      lc_max_tokens = max_tokens\<rparr>
         in (Inr (case nw_reply nw call of
                    Content t \<Rightarrow> cleaned_or nw ERR_API_GEMINI clean_text t
                  | NoContent e \<Rightarrow> ERR_GEMINI_FORMAT
                  | Fault e \<Rightarrow> ERR_API_GEMINI @ nw_str nw e
                  | Raised m \<Rightarrow> ERR_API_GEMINI @ m),
             [call])))"

text \<open>
  \<^verbatim>\<open>MessengerAPI.send_openrouter\<close>: the content is read with
  \<^verbatim>\<open>api_response["choices"][0]["message"]["content"]\<close>, and the two handlers catch the
  exceptions of \<^verbatim>\<open>requests\<close> and \<^verbatim>\<open>KeyError\<close>. Every other exception, the
  \<^verbatim>\<open>IndexError\<close> of an empty list of choices among them, leaves the function.
\<close>

definition openrouter_handlers :: "py_error \<Rightarrow> py_error + pystr" where
  "openrouter_handlers e = (case e of KeyError k \<Rightarrow> Inr ERR_OPENROUTER_FORMAT | _ \<Rightarrow> Inl e)"

definition send_openrouter ::
  "net_world \<Rightarrow> pystr \<Rightarrow> pystr \<Rightarrow> pystr \<Rightarrow> pystr \<Rightarrow> real \<Rightarrow> int \<Rightarrow> outcome"
where
  "send_openrouter nw prompt model api_url api_key temperature max_tokens =
     (let call = \<lparr>lc_library = asc ''requests'', lc_url = api_url, lc_key = api_key,
                   lc_model = model, lc_prompt = prompt, lc_temperature = temperature,
                   lc_max_tokens = max_tokens\<rparr>
      in ((case nw_reply nw call of
             Content t \<Rightarrow>
               (case clean_text t of Inl e \<Rightarrow> openrouter_handlers e | Inr r \<Rightarrow> Inr r)
           | NoContent e \<Rightarrow> openrouter_handlers e
           | Fault e \<Rightarrow> openrouter_handlers e
           | Raised m \<Rightarrow> Inr (ERR_API_OPENROUTER @ m)),
          [call]))"

text \<open>\<^verbatim>\<open>MessengerAPI.send_chutes\<close>: one handler for every exception.\<close>

definition send_chutes ::
  "net_world \<Rightarrow> pystr \<Rightarrow> pystr \<Rightarrow> pystr \<Rightarrow> pystr \<Rightarrow> real \<Rightarrow> int \<Rightarrow> outcome"
where
  "send_chutes nw prompt model api_url api_key temperature max_tokens =
     (let call = \<lparr>lc_library = asc ''requests'', lc_url = api_url, lc_key = api_key,
                   lc_model = model, lc_prompt = prompt, lc_temperature = temperature,
                   lc_max_tokens = max_tokens\<rparr>
      in (Inr (case nw_reply nw call of
                 Content t \<Rightarrow> cleaned_or nw ERR_API_CHUTES clean_text t
               | NoContent e \<Rightarrow> ERR_API_CHUTES @ nw_str nw e
               | Fault e \<Rightarrow> ERR_API_CHUTES @ nw_str nw e
               | Raised m \<Rightarrow> ERR_API_CHUTES @ m),
          [call]))"

text \<open>\<^verbatim>\<open>MessengerAPI.send_deepseek\<close>: the model name is fixed.\<close>

definition send_deepseek ::
  "net_world \<Rightarrow> pystr \<Rightarrow> pystr \<Rightarrow> pystr \<Rightarrow> pystr \<Rightarrow> real \<Rightarrow> int \<Rightarrow> outcome"
where
  "send_deepseek nw prompt model api_url api_key temperature max_tokens =
     (if \<not> nw_installed nw (asc ''openai'') then (Inr ERR_NO_OPENAI, [])
      else
        (let call = \<lparr>lc_library = asc ''openai'', lc_url = api_url, lc_key = api_key,
                      lc_model = asc ''deepseek-chat'', lc_prompt = prompt,
                      lc_temperature = temperature, lc_max_tokens = max_tokens\<rparr>
         in (Inr (case nw_reply nw call of
                    Content t \<Rightarrow> cleaned_or nw ERR_API_DEEPSEEK clean_text t
                  | NoContent e \<Rightarrow> ERR_API_DEEPSEEK @ nw_str nw e
                  | Fault e \<Rightarrow> ERR_API_DEEPSEEK @ nw_str nw e
                  | Raised m \<Rightarrow> ERR_API_DEEPSEEK @ m),
             [call])))"

text \<open>
  The configuration of the providers, the attribute \<^verbatim>\<open>self.config\<close> of both classes:
  the empty dictionary when the providers file does not exist, and otherwise what
  \<^verbatim>\<open>yaml.safe_load\<close> gives for the file. For a file that holds a mapping that is a
  dictionary, in which an entry without a body is \<^verbatim>\<open>None\<close>; for an empty file it is
  \<^verbatim>\<open>None\<close> and no dictionary. A file that holds a list or a scalar is outside the model.
\<close>

type_synonym providers = "(pystr \<rightharpoonup> provider_dict option) option"

text \<open>
  \<^verbatim>\<open>MessengerAPI.send_message(prompt, character_config)\<close>: the text returned or the
  exception raised, and the calls made. The settings default to the provider
  \<^verbatim>\<open>claude\<close>, an empty model name, the temperature 0.7 and 300 tokens. The test
  \<^verbatim>\<open>provider not in self.config\<close> and the two \<^verbatim>\<open>provider_data.get\<close> stand before the
  \<^verbatim>\<open>try\<close>: on the configuration \<^verbatim>\<open>None\<close> the test raises \<^verbatim>\<open>TypeError\<close>, on an entry
  \<^verbatim>\<open>None\<close> the first \<^verbatim>\<open>get\<close> raises \<^verbatim>\<open>AttributeError\<close>. An exception that leaves a send
  function is caught by the \<^verbatim>\<open>try\<close>.
\<close>

definition send_message ::
  "net_world \<Rightarrow> providers \<Rightarrow> pystr \<Rightarrow> char_dict \<Rightarrow> outcome"
where
  "send_message nw config prompt character_config =
     (let api_settings = c_api_settings character_config;
          provider = (case api_settings of None \<Rightarrow> asc ''claude''
                      | Some s \<Rightarrow> py_get (as_provider s) (asc ''claude''));
          model = (case api_settings of None \<Rightarrow> [] | Some s \<Rightarrow> py_get (as_model s) []);
          temperature = (case api_settings of None \<Rightarrow> 0.7
                         | Some s \<Rightarrow> py_get (as_temperature s) 0.7);
          max_tokens = (case api_settings of None \<Rightarrow> 300
                        | Some s \<Rightarrow> py_get (as_max_tokens s) 300)
      in case config of
           None \<Rightarrow> (Inl TypeError, [])
         | Some entries \<Rightarrow>
             (case entries provider of
                None \<Rightarrow> (Inr (ERR_PROVIDER_OPEN @ provider @ ERR_NOT_FOUND_CLOSE), [])
              | Some None \<Rightarrow> (Inl AttributeError, [])
              | Some (Some provider_data) \<Rightarrow>
                  (let api_url = py_get (pd_api provider_data) [];
                       api_key = py_get (pd_key provider_data) [];
                       (returned, calls) =
                         (if provider = asc ''claude'' then
                            send_claude nw prompt model api_key temperature max_tokens
                          else if provider = asc ''gemini'' then
                            send_gemini nw prompt model api_key temperature max_tokens
                          else if provider = asc ''openrouter'' then
                            send_openrouter nw prompt model api_url api_key temperature
                              max_tokens
                          else if provider = asc ''chutes'' then
                            send_chutes nw prompt model api_url api_key temperature max_tokens
                          else if provider = asc ''deepseek'' then
                            send_deepseek nw prompt model api_url api_key temperature
                              max_tokens
                          else (Inr (ERR_PROVIDER_OPEN @ provider @ ERR_UNSUPPORTED_CLOSE), []))
                   in (Inr (case returned of Inl e \<Rightarrow> ERR_API @ nw_str nw e | Inr t \<Rightarrow> t),
                       calls))))"

text \<open>The texts of \<^verbatim>\<open>APIManager\<close>: nothing selected, provider without a
  send function (a Cyrillic word before the name, two after it), and the openings of the
  errors of its send functions.\<close>

definition CORE_NOT_SELECTED :: pystr where
  "CORE_NOT_SELECTED = [1054, 1096, 1080, 1073, 1082, 1072, 58, 32, 1055, 1088, 1086, 1074, 1072, 1081, 1076,
       1077, 1088, 32, 1080, 1083, 1080, 32, 1084, 1086, 1076, 1077, 1083, 1100, 32,
       1085, 1077, 32, 1074, 1099, 1073, 1088, 1072, 1085, 1099]"

definition CORE_PROVIDER :: pystr where
  "CORE_PROVIDER = [1055, 1088, 1086, 1074, 1072, 1081, 1076, 1077, 1088, 32]"

definition CORE_UNSUPPORTED :: pystr where
  "CORE_UNSUPPORTED = [32, 1085, 1077, 32, 1087, 1086, 1076, 1076, 1077, 1088, 1078, 1080, 1074, 1072, 1077,
       1090, 1089, 1103]"

definition CORE_ERR_CLAUDE :: pystr where
  "CORE_ERR_CLAUDE = [1054, 1096, 1080, 1073, 1082, 1072, 32, 67, 108, 97, 117, 100, 101, 58, 32]"

definition CORE_ERR_GEMINI :: pystr where
  "CORE_ERR_GEMINI = [1054, 1096, 1080, 1073, 1082, 1072, 32, 71, 101, 109, 105, 110, 105, 58, 32]"

definition CORE_ERR_DEEPSEEK :: pystr where
  "CORE_ERR_DEEPSEEK = [1054, 1096, 1080, 1073, 1082, 1072, 32, 68, 101, 101, 112, 83, 101, 101, 107, 58, 32]"

text \<open>The attributes of an \<^verbatim>\<open>APIManager\<close>: the configuration and the selection,
  \<^verbatim>\<open>None\<close> until \<^verbatim>\<open>set_provider_and_model\<close> is called.\<close>

record api_manager =
  am_config :: providers
  current_provider :: "pystr option"
  current_model :: "pystr option"

definition set_provider_and_model :: "api_manager \<Rightarrow> pystr \<Rightarrow> pystr \<Rightarrow> api_manager" where
  "set_provider_and_model am provider model =
     am\<lparr>current_provider := Some provider, current_model := Some model\<rparr>"

text \<open>
  The send functions of \<^verbatim>\<open>APIManager\<close>. Each body is one \<^verbatim>\<open>try\<close> that catches every
  exception, the failed import included, and returns \<open>opening\<close> followed by
  \<^verbatim>\<open>str(e)\<close>; none tests the key or the response.
\<close>

definition core_reply :: "net_world \<Rightarrow> pystr \<Rightarrow> lib_call \<Rightarrow> pystr" where
  "core_reply nw opening call =
     (case nw_reply nw call of
        Content t \<Rightarrow> cleaned_or nw opening core_clean_text t
      | NoContent e \<Rightarrow> opening @ nw_str nw e
      | Fault e \<Rightarrow> opening @ nw_str nw e
      | Raised m \<Rightarrow> opening @ m)"

definition core_send_sdk ::
  "net_world \<Rightarrow> pystr \<Rightarrow> pystr \<Rightarrow> pystr \<Rightarrow> pystr \<Rightarrow> pystr \<Rightarrow> pystr \<Rightarrow> real \<Rightarrow> int \<Rightarrow>
     pystr \<times> lib_call list"
where
  "core_send_sdk nw opening library api_url api_key model prompt temperature max_tokens =
     (if \<not> nw_installed nw library then (opening @ nw_import_error nw library, [])
      else
        (let call = \<lparr>lc_library = library, lc_url = api_url, lc_key = api_key, lc_model = model,
                      lc_prompt = prompt, lc_temperature = temperature,
                      lc_max_tokens = max_tokens\<rparr>
         in (core_reply nw opening call, [call])))"

definition core_send_claude ::
  "net_world \<Rightarrow> api_manager \<Rightarrow> pystr \<Rightarrow> pystr \<Rightarrow> real \<Rightarrow> int \<Rightarrow> pystr \<times> lib_call list"
where
  "core_send_claude nw am prompt api_key temperature max_tokens =
     core_send_sdk nw CORE_ERR_CLAUDE (asc ''anthropic'') [] api_key
       (py_get (current_model am) []) prompt temperature max_tokens"

definition core_send_gemini ::
  "net_world \<Rightarrow> api_manager \<Rightarrow> pystr \<Rightarrow> pystr \<Rightarrow> real \<Rightarrow> int \<Rightarrow> pystr \<times> lib_call list"
where
  "core_send_gemini nw am prompt api_key temperature max_tokens =
     core_send_sdk nw CORE_ERR_GEMINI (asc ''google.generativeai'') [] api_key
       (py_get (current_model am) []) prompt temperature max_tokens"

definition core_send_openai_compatible ::
  "net_world \<Rightarrow> api_manager \<Rightarrow> pystr \<Rightarrow> pystr \<Rightarrow> pystr \<Rightarrow> real \<Rightarrow> int \<Rightarrow>
     pystr \<times> lib_call list"
where
  "core_send_openai_compatible nw am prompt api_url api_key temperature max_tokens =
     (let call = \<lparr>lc_library = asc ''requests'', lc_url = api_url, lc_key = api_key,
                   lc_model = py_get (current_model am) [], lc_prompt = prompt,
                   lc_temperature = temperature, lc_max_tokens = max_tokens\<rparr>
      in (core_reply nw ERR_API call, [call]))"

definition core_send_deepseek ::
  "net_world \<Rightarrow> pystr \<Rightarrow> pystr \<Rightarrow> pystr \<Rightarrow> real \<Rightarrow> int \<Rightarrow> pystr \<times> lib_call list"
where
  "core_send_deepseek nw prompt api_url api_key temperature max_tokens =
     core_send_sdk nw CORE_ERR_DEEPSEEK (asc ''openai'') api_url api_key (asc ''deepseek-chat'')
       prompt temperature max_tokens"

text \<open>
  \<^verbatim>\<open>APIManager.send_message(prompt, temperature, max_tokens)\<close>. There is no test of the
  provider against the configuration: the entry is read with
  \<^verbatim>\<open>self.config.get(self.current_provider, {})\<close>, which gives the empty entry for a
  provider that is not in the configuration, and which raises \<^verbatim>\<open>AttributeError\<close> on the
  configuration \<^verbatim>\<open>None\<close>, as \<^verbatim>\<open>provider_data.get\<close> does on an entry \<^verbatim>\<open>None\<close>; both stand
  before the \<^verbatim>\<open>try\<close>. The send functions return a text in every case, so the handler of
  the \<^verbatim>\<open>try\<close> has nothing to catch.
\<close>

definition core_send_message ::
  "net_world \<Rightarrow> api_manager \<Rightarrow> pystr \<Rightarrow> real \<Rightarrow> int \<Rightarrow> outcome"
where
  "core_send_message nw am prompt temperature max_tokens =
     (if py_get (current_provider am) [] = [] \<or> py_get (current_model am) [] = [] then
        (Inr CORE_NOT_SELECTED, [])
      else
        (let provider = py_get (current_provider am) [] in
         case am_config am of
           None \<Rightarrow> (Inl AttributeError, [])
         | Some entries \<Rightarrow>
             (case py_get (entries provider)
                     (Some \<lparr>pd_api = None, pd_key = None, pd_models = None\<rparr>) of
                None \<Rightarrow> (Inl AttributeError, [])
              | Some provider_data \<Rightarrow>
                  (let api_key = py_get (pd_key provider_data) [];
                       (returned, calls) =
                         (if provider = asc ''claude'' then
                            core_send_claude nw am prompt api_key temperature max_tokens
                          else if provider = asc ''gemini'' then
                            core_send_gemini nw am prompt api_key temperature max_tokens
                          else if provider \<in> set [asc ''openrouter'', asc ''chutes'',
                                                 asc ''featherless'', asc ''moonshot''] then
                            core_send_openai_compatible nw am prompt
                              (py_get (pd_api provider_data) []) api_key temperature max_tokens
                          else if provider = asc ''deepseek'' then
                            core_send_deepseek nw prompt (py_get (pd_api provider_data) [])
                              api_key temperature max_tokens
                          else (CORE_PROVIDER @ provider @ CORE_UNSUPPORTED, []))
                   in (Inr returned, calls)))))"


section \<open>Repeated appends, and the states of the examples\<close>



text \<open>
  The examples use one character \<^verbatim>\<open>a\<close> named Alice, whose group template has the
  placeholder \<^verbatim>\<open>{mood}\<close> and whose one photo is \<^verbatim>\<open>smile_01.png\<close>, and one group
  \<^verbatim>\<open>g\<close> named Team with that member; first as objects of the refactored application,
  then as dictionaries of the one-file application.
\<close>

definition ex_stamp :: stamp where
  "ex_stamp = \<lparr>st_id = asc ''msg_1700000000000'', st_iso = asc ''2023-11-14T22:13:20''\<rparr>"

definition ex_template :: pystr where
  "ex_template = asc ''Chat {group_name} with {members}, mood {mood}''"

definition ex_character :: Character where
  "ex_character =
     \<lparr>char_id = asc ''a'', char_name = asc ''Alice'', private_prompt = asc ''You are Alice.'',
      group_prompt = ex_template, photos = [\<lparr>p_filename = Some (asc ''smile_01.png'')\<rparr>]\<rparr>"

definition ex_group :: Group where
  "ex_group =
     \<lparr>group_id = asc ''g'', group_name = asc ''Team'', members = [asc ''a''],
      group_context = []\<rparr>"

definition ex_manager :: chat_manager where
  "ex_manager =
     \<lparr>characters = [asc ''a'' \<mapsto> ex_character], groups = [asc ''g'' \<mapsto> ex_group],
      chats = [asc ''g'' \<mapsto> []], chat_files = Map.empty\<rparr>"

definition ex_core_world :: core_world where
  "ex_core_world =
     \<lparr>cw_send = (\<lambda>prompt. Inr (asc ''[IGNORE]'')),
      cw_format_other = (\<lambda>n r. Inl ValueError),
      cw_clock = (\<lambda>i. ex_stamp)\<rparr>"

definition ex_char_dict :: char_dict where
  "ex_char_dict =
     \<lparr>c_id = Some (asc ''a''), c_name = Some (asc ''Alice''),
      c_private_prompt = Some (asc ''You are Alice.''), c_group_prompt = Some ex_template,
      c_photos = Some [\<lparr>p_filename = Some (asc ''smile_01.png'')\<rparr>], c_api_settings = None\<rparr>"

definition ex_group_dict :: group_dict where
  "ex_group_dict =
     \<lparr>g_id = Some (asc ''g''), g_name = Some (asc ''Team''), g_members = Some [asc ''a''],
      g_group_context = None\<rparr>"

definition ex_app :: app where
  "ex_app =
     \<lparr>app_characters = [asc ''a'' \<mapsto> ex_char_dict], app_groups = [asc ''g'' \<mapsto> ex_group_dict],
      app_chats = [asc ''g'' \<mapsto> []], current_chat_id = asc ''g'',
      typing_indicators = Map.empty, app_chat_files = Map.empty, slept = 0\<rparr>"

text \<open>A world whose provider always answers with the ignore directive and in which no
  photo file exists.\<close>

definition ex_world :: world where
  "ex_world =
     \<lparr>w_send = (\<lambda>prompt character. Inr (asc ''[IGNORE]'')),
      w_format_other = (\<lambda>n r. Inl ValueError),
      w_isalnum = (\<lambda>c. False),
      w_exists = (\<lambda>path. False),
      w_clock = (\<lambda>i. ex_stamp),
      w_str = (\<lambda>e. [])\<rparr>"





definition ex_photo_chat :: "Message list" where
  "ex_photo_chat =
     [new_message ex_stamp (asc ''user'') (asc ''hi'') (asc ''text'') [],
      new_message ex_stamp (asc ''a'') [] (asc ''photo'')
        (asc ''characters/a/photos/smile_01.png'')]"

text \<open>The same character and states with a group template that has the two known
  placeholders only.\<close>

definition ex_ok_template :: pystr where
  "ex_ok_template = asc ''Chat: {group_name} with {members}''"

definition ex_ok_character :: Character where
  "ex_ok_character = ex_character\<lparr>group_prompt := ex_ok_template\<rparr>"

definition ex_ok_manager :: chat_manager where
  "ex_ok_manager = ex_manager\<lparr>characters := [asc ''a'' \<mapsto> ex_ok_character]\<rparr>"

definition ex_ok_char_dict :: char_dict where
  "ex_ok_char_dict = ex_char_dict\<lparr>c_group_prompt := Some ex_ok_template\<rparr>"

definition ex_ok_app :: app where
  "ex_ok_app = ex_app\<lparr>app_characters := [asc ''a'' \<mapsto> ex_ok_char_dict]\<rparr>"



section \<open>Properties of the string operations\<close>

lemma py_in_sublist: "py_in sub s = sublist sub s"
  by (induction s) (auto simp: sublist_Cons_right)

lemma split_scan_hd:
  "split_scan sep cur s \<noteq> [] \<and> hd (split_scan sep cur s) = cur @ truncate_at s sep"
  by (induction sep cur s rule: split_scan.induct) auto

lemma truncate_at_prefix: "prefix (truncate_at s marker) s"
  by (induction s) auto

lemma truncate_at_absent: "\<not> py_in marker s \<Longrightarrow> truncate_at s marker = s"
  by (induction s) auto

text \<open>What a truncation is: the text splits at the marker, and the marker does not begin
  at any earlier position.\<close>

lemma truncate_at_first_occurrence:
  "py_in marker s \<Longrightarrow> marker \<noteq> [] \<Longrightarrow>
     (\<exists>rest. s = truncate_at s marker @ marker @ rest) \<and>
     (\<forall>i < length (truncate_at s marker). \<not> prefix marker (drop i s))"
proof (induction s)
  case Nil
  then show ?case by simp
next
  case (Cons c cs)
  show ?case
  proof (cases "prefix marker (c # cs)")
    case True
    then show ?thesis by (auto simp: prefix_def)
  next
    case False
    with Cons.prems have "py_in marker cs" by simp
    with Cons.IH Cons.prems have ih:
      "(\<exists>rest. cs = truncate_at cs marker @ marker @ rest)"
      "\<forall>i < length (truncate_at cs marker). \<not> prefix marker (drop i cs)"
      by auto
    have "\<not> prefix marker (drop i (c # cs))" if "i < Suc (length (truncate_at cs marker))" for i
      using that False ih(2) by (cases i) auto
    with False ih(1) show ?thesis by auto
  qed
qed

lemma truncate_at_free: "marker \<noteq> [] \<Longrightarrow> \<not> py_in marker (truncate_at s marker)"
proof (induction s)
  case Nil
  then show ?case by simp
next
  case (Cons c cs)
  show ?case
  proof (cases "prefix marker (c # cs)")
    case True
    with Cons.prems show ?thesis by simp
  next
    case False
    have "prefix (c # truncate_at cs marker) (c # cs)"
      by (simp add: truncate_at_prefix)
    with False have "\<not> prefix marker (c # truncate_at cs marker)"
      using prefix_order.trans by blast
    with False Cons show ?thesis by simp
  qed
qed

lemma cut_step:
  "tag \<noteq> [] \<Longrightarrow>
     cut_loop (tag # tags) s = cut_loop tags (truncate_at s tag)"
  using split_scan_hd [of tag "[]" s]
  by (cases "split_scan tag [] s")
     (auto simp: py_split_def py_getitem_def truncate_at_absent)

lemma cut_loop_foldl:
  "[] \<notin> set tags \<Longrightarrow> cut_loop tags s = Inr (foldl truncate_at s tags)"
proof (induction tags arbitrary: s)
  case Nil
  then show ?case by simp
next
  case (Cons tag tags)
  then have "tag \<noteq> []" "[] \<notin> set tags" by auto
  then show ?case using Cons.IH [of "truncate_at s tag"] by (simp add: cut_step del: cut_loop.simps)
qed

lemma cut_tags_nonempty: "[] \<notin> set cut_tags"
  by (simp add: cut_tags_def asc_def)

lemma cut_loop_cut_tags: "cut_loop cut_tags s = Inr (foldl truncate_at s cut_tags)"
  by (rule cut_loop_foldl [OF cut_tags_nonempty])

lemma foldl_truncate_sublist: "sublist (foldl truncate_at s tags) s"
proof (induction tags arbitrary: s)
  case Nil
  then show ?case by simp
next
  case (Cons t ts)
  have "sublist (foldl truncate_at (truncate_at s t) ts) (truncate_at s t)"
    by (rule Cons.IH)
  moreover have "sublist (truncate_at s t) s"
    by (rule prefix_imp_sublist [OF truncate_at_prefix])
  ultimately show ?case
    using sublist_order.order_trans by auto
qed

lemma foldl_truncate_free:
  "[] \<notin> set tags \<Longrightarrow> tag \<in> set tags \<Longrightarrow> \<not> py_in tag (foldl truncate_at s tags)"
proof (induction tags arbitrary: s)
  case Nil
  then show ?case by simp
next
  case (Cons t ts)
  show ?case
  proof (cases "tag \<in> set ts")
    case True
    with Cons show ?thesis by simp
  next
    case False
    with Cons.prems have eq: "tag = t" and ne: "t \<noteq> []" by auto
    have "\<not> sublist t (truncate_at s t)"
      using truncate_at_free [OF ne] by (simp add: py_in_sublist)
    moreover have "sublist (foldl truncate_at (truncate_at s t) ts) (truncate_at s t)"
      by (rule foldl_truncate_sublist)
    ultimately have "\<not> sublist t (foldl truncate_at (truncate_at s t) ts)"
      using sublist_order.order_trans by blast
    with eq show ?thesis by (simp add: py_in_sublist)
  qed
qed

lemma rev_dropWhile_rev_prefix: "prefix (rev (dropWhile P (rev xs))) xs"
proof -
  have "rev (takeWhile P (rev xs) @ dropWhile P (rev xs)) = rev (rev xs)"
    by (simp only: takeWhile_dropWhile_id)
  then have "rev (dropWhile P (rev xs)) @ rev (takeWhile P (rev xs)) = xs"
    by (simp only: rev_append rev_rev_ident)
  then have "xs = rev (dropWhile P (rev xs)) @ rev (takeWhile P (rev xs))"
    by (rule sym)
  then show ?thesis by (rule prefixI)
qed

lemma strip_sublist: "sublist (strip s) s"
proof -
  have "prefix (strip s) (dropWhile isspace s)"
    unfolding strip_def by (rule rev_dropWhile_rev_prefix)
  then have "sublist (strip s) (dropWhile isspace s)"
    by (rule prefix_imp_sublist)
  moreover have "sublist (dropWhile isspace s) s"
    by (rule suffix_imp_sublist [OF suffix_dropWhile])
  ultimately show ?thesis by (rule sublist_order.order_trans)
qed

lemma strip_fixed:
  assumes "s \<noteq> []" and "\<not> isspace (hd s)" and "\<not> isspace (last s)"
  shows "strip s = s"
proof -
  have d: "dropWhile isspace s = s"
    using assms(2) by (simp add: dropWhile_eq_self_iff)
  have "rev s \<noteq> []" using assms(1) by simp
  moreover have "hd (rev s) = last s" using assms(1) by (simp add: hd_rev)
  ultimately have "dropWhile isspace (rev s) = rev s"
    using assms(3) by (simp add: dropWhile_eq_self_iff)
  with d show ?thesis by (simp add: strip_def)
qed

lemma strip_ends:
  assumes "strip s \<noteq> []"
  shows "\<not> isspace (hd (strip s))" and "\<not> isspace (last (strip s))"
proof -
  define d where "d = dropWhile isspace s"
  define e where "e = dropWhile isspace (rev d)"
  have strip: "strip s = rev e" by (simp add: strip_def d_def e_def)
  from assms have e: "e \<noteq> []" by (simp add: strip)
  have d: "d \<noteq> []"
  proof
    assume "d = []"
    then have "e = []" by (simp add: e_def)
    with e show False by simp
  qed
  have "\<not> isspace (hd e)" using e unfolding e_def by (rule hd_dropWhile)
  then show "\<not> isspace (last (strip s))"
    using e by (simp add: strip last_rev)
  have hd_d: "\<not> isspace (hd d)" using d unfolding d_def by (rule hd_dropWhile)
  have "prefix (rev e) d" unfolding e_def by (rule rev_dropWhile_rev_prefix)
  then obtain r where "d = rev e @ r" by (auto simp: prefix_def)
  moreover have "rev e \<noteq> []" using e by simp
  ultimately have "hd (rev e) = hd d" by (metis hd_append2)
  with hd_d show "\<not> isspace (hd (strip s))" by (simp add: strip)
qed

lemma strip_idem: "strip (strip s) = strip s"
proof (cases "strip s = []")
  case True
  have "strip [] = []" by (simp add: strip_def)
  with True show ?thesis by simp
next
  case False
  then show ?thesis by (intro strip_fixed strip_ends)
qed



text \<open>What stripping is: the text is whitespace, the stripped text, whitespace; and the
  stripped text is empty exactly when the text is whitespace only.\<close>

lemma strip_decomp:
  "s = takeWhile isspace s @ strip s @ rev (takeWhile isspace (rev (dropWhile isspace s)))"
proof -
  define d where "d = dropWhile isspace s"
  have "rev (takeWhile isspace (rev d) @ dropWhile isspace (rev d)) = rev (rev d)"
    by (simp only: takeWhile_dropWhile_id)
  then have d: "d = rev (dropWhile isspace (rev d)) @ rev (takeWhile isspace (rev d))"
    by (simp only: rev_append rev_rev_ident)
  have "s = takeWhile isspace s @ d"
    by (simp add: d_def)
  also have "\<dots> = takeWhile isspace s @ rev (dropWhile isspace (rev d)) @
      rev (takeWhile isspace (rev d))"
    using d by simp
  finally show ?thesis by (simp add: strip_def d_def)
qed

lemma takeWhile_all: "list_all P (takeWhile P xs)"
  by (induction xs) simp_all

lemma strip_surroundings:
  "list_all isspace (takeWhile isspace s)"
  "list_all isspace (rev (takeWhile isspace (rev (dropWhile isspace s))))"
  using takeWhile_all [of isspace] by (simp_all add: list_all_iff)

lemma strip_empty_iff: "strip s = [] \<longleftrightarrow> list_all isspace s"
proof
  assume "strip s = []"
  with strip_decomp [of s] have
    "s = takeWhile isspace s @ rev (takeWhile isspace (rev (dropWhile isspace s)))"
    by simp
  then have "list_all isspace s = list_all isspace
      (takeWhile isspace s @ rev (takeWhile isspace (rev (dropWhile isspace s))))"
    by (rule arg_cong)
  then show "list_all isspace s"
    using strip_surroundings [of s] by simp
next
  assume "list_all isspace s"
  then have "dropWhile isspace s = []" by (simp add: list_all_iff dropWhile_eq_Nil_conv)
  then have "rev (dropWhile isspace (rev (dropWhile isspace s))) = rev (dropWhile isspace (rev []))"
    by (rule arg_cong)
  then show "strip s = []" by (simp only: strip_def rev.simps dropWhile.simps)
qed

lemma strip_first_last:
  "list_all (\<lambda>c. \<not> isspace c) (take 1 (strip s))"
  "list_all (\<lambda>c. \<not> isspace c) (take 1 (rev (strip s)))"
proof -
  show "list_all (\<lambda>c. \<not> isspace c) (take 1 (strip s))"
  proof (cases "strip s")
    case Nil
    then show ?thesis by simp
  next
    case (Cons c cs)
    then have "strip s \<noteq> []" by simp
    from strip_ends(1) [OF this] Cons show ?thesis by simp
  qed
  show "list_all (\<lambda>c. \<not> isspace c) (take 1 (rev (strip s)))"
  proof (cases "rev (strip s)")
    case Nil
    then show ?thesis by simp
  next
    case (Cons c cs)
    then have ne: "strip s \<noteq> []" by auto
    from Cons have "hd (rev (strip s)) = c" by simp
    with ne have "last (strip s) = c" by (simp add: hd_rev)
    with strip_ends(2) [OF ne] Cons show ?thesis by simp
  qed
qed



section \<open>Properties of the response cleaning\<close>

lemma clean_text_eq:
  "clean_text s = Inr (if s = [] then EMPTY_RESPONSE
     else (let t = strip (foldl truncate_at s cut_tags) in
           if t \<noteq> [] then t else EMPTY_AFTER_CLEANING))"
  by (simp add: clean_text_def cut_loop_cut_tags Let_def)

lemma core_clean_text_eq:
  "core_clean_text s = Inr (if s = [] then EMPTY_CORE
     else (let t = strip (foldl truncate_at s cut_tags) in
           if t \<noteq> [] then t else EMPTY_CORE))"
  by (simp add: core_clean_text_def cut_loop_cut_tags Let_def)

lemma foldl_truncate_absent:
  "list_all (\<lambda>tag. \<not> py_in tag s) tags \<Longrightarrow> foldl truncate_at s tags = s"
  by (induction tags) (simp_all add: truncate_at_absent)

lemma cleaned_free:
  "list_all (\<lambda>tag. \<not> py_in tag (strip (foldl truncate_at s cut_tags))) cut_tags"
proof -
  have "\<not> py_in tag (strip (foldl truncate_at s cut_tags))" if "tag \<in> set cut_tags" for tag
  proof -
    have "\<not> sublist tag (foldl truncate_at s cut_tags)"
      using foldl_truncate_free [OF cut_tags_nonempty that] by (simp add: py_in_sublist)
    moreover have "sublist (strip (foldl truncate_at s cut_tags)) (foldl truncate_at s cut_tags)"
      by (rule strip_sublist)
    ultimately have "\<not> sublist tag (strip (foldl truncate_at s cut_tags))"
      using sublist_order.order_trans by blast
    then show ?thesis by (simp add: py_in_sublist)
  qed
  then show ?thesis by (simp add: list_all_iff)
qed

lemma EMPTY_RESPONSE_free: "list_all (\<lambda>tag. \<not> py_in tag EMPTY_RESPONSE) cut_tags"
  by (simp add: EMPTY_RESPONSE_def cut_tags_def asc_def)

lemma EMPTY_AFTER_CLEANING_free:
  "list_all (\<lambda>tag. \<not> py_in tag EMPTY_AFTER_CLEANING) cut_tags"
  by (simp add: EMPTY_AFTER_CLEANING_def cut_tags_def asc_def)

lemma EMPTY_CORE_free: "list_all (\<lambda>tag. \<not> py_in tag EMPTY_CORE) cut_tags"
  by (simp add: EMPTY_CORE_def cut_tags_def asc_def)

lemma strip_EMPTY_RESPONSE: "strip EMPTY_RESPONSE = EMPTY_RESPONSE"
  by (rule strip_fixed) (simp_all add: EMPTY_RESPONSE_def isspace_def)

lemma strip_EMPTY_AFTER_CLEANING: "strip EMPTY_AFTER_CLEANING = EMPTY_AFTER_CLEANING"
  by (rule strip_fixed) (simp_all add: EMPTY_AFTER_CLEANING_def isspace_def)

lemma strip_EMPTY_CORE: "strip EMPTY_CORE = EMPTY_CORE"
  by (rule strip_fixed) (simp_all add: EMPTY_CORE_def isspace_def)

lemma markers_nonempty:
  "EMPTY_RESPONSE \<noteq> []" "EMPTY_AFTER_CLEANING \<noteq> []" "EMPTY_CORE \<noteq> []"
  by (simp_all add: EMPTY_RESPONSE_def EMPTY_AFTER_CLEANING_def EMPTY_CORE_def)

text \<open>A non-empty text without markers and without surrounding whitespace is returned
  as it is.\<close>

lemma clean_text_fixed:
  assumes "r \<noteq> []" and "list_all (\<lambda>tag. \<not> py_in tag r) cut_tags" and "strip r = r"
  shows "clean_text r = Inr r" and "core_clean_text r = Inr r"
  using assms by (simp_all add: clean_text_eq core_clean_text_eq foldl_truncate_absent)

lemma clean_text_result_fixed:
  "\<exists>r. clean_text s = Inr r \<and> r \<noteq> [] \<and> list_all (\<lambda>tag. \<not> py_in tag r) cut_tags \<and> strip r = r"
proof (cases "s = []")
  case True
  then show ?thesis
    by (simp add: clean_text_eq EMPTY_RESPONSE_free strip_EMPTY_RESPONSE markers_nonempty)
next
  case False
  show ?thesis
  proof (cases "strip (foldl truncate_at s cut_tags) = []")
    case True
    with False show ?thesis
      by (simp add: clean_text_eq EMPTY_AFTER_CLEANING_free strip_EMPTY_AFTER_CLEANING
          markers_nonempty)
  next
    case nonempty: False
    with False show ?thesis
      by (simp add: clean_text_eq cleaned_free strip_idem)
  qed
qed

lemma core_clean_text_result_fixed:
  "\<exists>r. core_clean_text s = Inr r \<and> r \<noteq> [] \<and> list_all (\<lambda>tag. \<not> py_in tag r) cut_tags \<and>
       strip r = r"
proof (cases "s = []")
  case True
  then show ?thesis
    by (simp add: core_clean_text_eq EMPTY_CORE_free strip_EMPTY_CORE markers_nonempty)
next
  case False
  show ?thesis
  proof (cases "strip (foldl truncate_at s cut_tags) = []")
    case True
    with False show ?thesis
      by (simp add: core_clean_text_eq EMPTY_CORE_free strip_EMPTY_CORE markers_nonempty)
  next
    case nonempty: False
    with False show ?thesis
      by (simp add: core_clean_text_eq cleaned_free strip_idem)
  qed
qed

text \<open>
  The two texts of \<^verbatim>\<open>MessengerAPI.clean_text\<close> for an empty reply are different, and
  every non-empty text of which truncation leaves whitespace only is cleaned to the
  second; \<^verbatim>\<open>APIManager._clean_text\<close> has one text for both.
\<close>

lemma empty_markers_differ: "EMPTY_AFTER_CLEANING \<noteq> EMPTY_RESPONSE"
  by (simp add: EMPTY_AFTER_CLEANING_def EMPTY_RESPONSE_def)

lemma clean_text_blank_after_cut:
  assumes "s \<noteq> []" and "list_all isspace (foldl truncate_at s cut_tags)"
  shows "clean_text s = Inr EMPTY_AFTER_CLEANING" and "core_clean_text s = Inr EMPTY_CORE"
proof -
  from assms(2) have "strip (foldl truncate_at s cut_tags) = []"
    by (simp add: strip_empty_iff)
  with assms(1) show "clean_text s = Inr EMPTY_AFTER_CLEANING"
    and "core_clean_text s = Inr EMPTY_CORE"
    by (simp_all add: clean_text_eq core_clean_text_eq)
qed


section \<open>Properties of the formatting\<close>










section \<open>A template with an unknown placeholder\<close>



lemma asc_group_not_private: "asc ''group'' \<noteq> asc ''private''"
  by (simp add: asc_def)







text \<open>The same with a Cyrillic name, the three letters U+0438 U+043C U+044F, and with
  a name that has blanks around it: the name is looked up as it is written.\<close>

lemma cyrillic_placeholder_raises:
  "py_format other (group_kwargs gname mnames)
     (asc ''Chat {group_name}, '' @ [123, 1080, 1084, 1103, 125] @ asc '' and {members}'') =
   Inl (KeyError [1080, 1084, 1103])"
  by (simp add: asc_def group_kwargs_def is_key_name_def is_name_char_def)

lemma blank_placeholder_raises:
  "py_format other (group_kwargs gname mnames) (asc ''Chat { members }'') =
   Inl (KeyError (asc '' members ''))"
  by (simp add: asc_def group_kwargs_def is_key_name_def is_name_char_def)


section \<open>Properties of the history and of the appends\<close>

lemma cm_history_concat:
  "cm_history cm msgs h =
     h @ concat (map (\<lambda>m. if msg_type m = asc ''text'' then cm_line cm m else []) msgs)"
  by (induction msgs arbitrary: h) simp_all

lemma cm_history_text_only:
  "list_all (\<lambda>m. msg_type m = asc ''text'') msgs \<Longrightarrow>
     cm_history cm msgs [] = concat (map (cm_line cm) msgs)"
  by (simp add: cm_history_concat list_all_iff cong: map_cong)

lemma cm_line_frame [simp]:
  "cm_line (cm\<lparr>chats := c\<rparr>) = cm_line cm" "cm_line (cm\<lparr>chat_files := f\<rparr>) = cm_line cm"
  by (simp_all add: fun_eq_iff cm_line_def cm_name_def)

lemma save_chat_history_frame [simp]:
  "chats (save_chat_history cm chat_id) = chats cm"
  "characters (save_chat_history cm chat_id) = characters cm"
  "groups (save_chat_history cm chat_id) = groups cm"
  by (simp_all add: save_chat_history_def Let_def split: option.splits)



lemma add_message_frame [simp]:
  "characters (fst (add_message cm now chat_id s b kind path)) = characters cm"
  "groups (fst (add_message cm now chat_id s b kind path)) = groups cm"
  by (simp_all add: add_message_def Let_def)


lemma add_text_message_frame [simp]:
  "characters (fst (add_text_message cm now chat_id s b)) = characters cm"
  "groups (fst (add_text_message cm now chat_id s b)) = groups cm"
  by (simp_all add: add_text_message_def)




lemma cm_line_characters:
  "characters cm' = characters cm \<Longrightarrow> cm_line cm' = cm_line cm"
  by (simp add: fun_eq_iff cm_line_def cm_name_def)

lemma list_all_drop: "list_all P xs \<Longrightarrow> list_all P (drop n xs)"
  by (induction xs arbitrary: n) (auto simp: drop_Cons split: nat.splits)








text \<open>A photo message in the two history loops: skipped by \<^verbatim>\<open>ChatManager\<close>, a line
  with the photo note in \<^verbatim>\<open>MessengerApp\<close>.\<close>

lemma cm_history_skips_photo:
  "msg_type msg = asc ''photo'' \<Longrightarrow> cm_history cm (msg # msgs) h = cm_history cm msgs h"
  by (simp add: asc_def)

lemma app_history_photo_line:
  "d_type msg = Some (asc ''photo'') \<Longrightarrow> d_sender msg = Some s \<Longrightarrow>
     app_history a (msg # msgs) h =
       app_history a msgs
         (h @ (if s = asc ''user'' then USER_NAME else app_name a s) @ asc '': '' @ PHOTO_NOTE @ [10])"
  by (simp add: py_item_def app_sender_name_def asc_def)

lemma app_history_text_line:
  "d_type msg = Some (asc ''text'') \<Longrightarrow> d_sender msg = Some s \<Longrightarrow> d_text msg = Some b \<Longrightarrow>
     app_history a (msg # msgs) h =
       app_history a msgs
         (h @ (if s = asc ''user'' then USER_NAME else app_name a s) @ asc '': '' @ b @ [10])"
  by (simp add: py_item_def app_sender_name_def)


section \<open>The appends of the examples\<close>














section \<open>Properties of the group turn\<close>

lemma app_history_typing [simp]:
  "app_history (a\<lparr>typing_indicators := t\<rparr>) msgs h = app_history a msgs h"
  by (induction msgs arbitrary: h)
     (simp_all add: app_sender_name_def app_name_def split: sum.splits)

lemma app_name_typing [simp]: "app_name (a\<lparr>typing_indicators := t\<rparr>) = app_name a"
  by (simp add: fun_eq_iff app_name_def)

lemma app_history_text_typing [simp]:
  "app_history_text (a\<lparr>typing_indicators := t\<rparr>) = app_history_text a"
  by (simp add: app_history_text_def)

lemma app_build_prompt_typing [simp]:
  "app_build_prompt w (a\<lparr>typing_indicators := t\<rparr>) c kind g = app_build_prompt w a c kind g"
  unfolding app_build_prompt_def app_name_typing app_history_text_typing ..

lemma group_loop_all_ignore:
  assumes "\<forall>m \<in> set ms. \<forall>c. app_characters a m = Some c \<and> \<not> char_falsy c \<longrightarrow>
             (\<exists>p r. app_build_prompt w a c (asc ''group'') (Some g) = Inr p \<and>
                    w_send w p c = Inr r \<and> py_in (asc ''[IGNORE]'') r)"
  shows "group_loop w g i ms a = (None, a)"
  using assms
proof (induction ms arbitrary: i)
  case Nil
  then show ?case by simp
next
  case (Cons m ms)
  then have rest: "group_loop w g (Suc i) ms a = (None, a)" by simp
  show ?case
  proof (cases "app_characters a m")
    case None
    with rest show ?thesis by simp
  next
    case (Some c)
    show ?thesis
    proof (cases "char_falsy c")
      case True
      with Some rest show ?thesis by simp
    next
      case False
      with Some Cons.prems obtain p r where
        "app_build_prompt w a c (asc ''group'') (Some g) = Inr p" "w_send w p c = Inr r"
        "py_in (asc ''[IGNORE]'') r"
        by auto
      with Some False rest show ?thesis by simp
    qed
  qed
qed

lemma area_group_loop_all_ignore:
  assumes "\<forall>m \<in> set ms. \<forall>c. characters cm m = Some c \<longrightarrow>
             (\<exists>p r. cm_build_prompt (cw_format_other cw) cm chat_id c True = Inr p \<and>
                    cw_send cw p = Inr r \<and> py_in (asc ''[IGNORE]'') r)"
  shows "area_group_loop cw chat_id i ms cm = (None, cm)"
  using assms
proof (induction ms arbitrary: i)
  case Nil
  then show ?case by simp
next
  case (Cons m ms)
  then have rest: "area_group_loop cw chat_id (Suc i) ms cm = (None, cm)" by simp
  show ?case
  proof (cases "characters cm m")
    case None
    with rest show ?thesis by simp
  next
    case (Some c)
    with Cons.prems obtain p r where
      "cm_build_prompt (cw_format_other cw) cm chat_id c True = Inr p" "cw_send cw p = Inr r"
      "py_in (asc ''[IGNORE]'') r"
      by auto
    with Some rest show ?thesis by simp
  qed
qed

text \<open>The whole turn of each application when every reply has the directive.\<close>

lemma app_turn_all_ignore:
  assumes "app_groups a (current_chat_id a) = Some g" and "\<not> group_falsy g"
    and "\<forall>m \<in> set (py_get (g_members g) []). \<forall>c.
           app_characters a m = Some c \<and> \<not> char_falsy c \<longrightarrow>
             (\<exists>p r. app_build_prompt w a c (asc ''group'') (Some g) = Inr p \<and>
                    w_send w p c = Inr r \<and> py_in (asc ''[IGNORE]'') r)"
  shows "get_character_response w a =
           (None, a\<lparr>typing_indicators := (typing_indicators a)(current_chat_id a \<mapsto> False)\<rparr>)"
proof -
  let ?a1 = "a\<lparr>typing_indicators := (typing_indicators a)(current_chat_id a \<mapsto> True)\<rparr>"
  have "\<forall>m \<in> set (py_get (g_members g) []). \<forall>c.
           app_characters ?a1 m = Some c \<and> \<not> char_falsy c \<longrightarrow>
             (\<exists>p r. app_build_prompt w ?a1 c (asc ''group'') (Some g) = Inr p \<and>
                    w_send w p c = Inr r \<and> py_in (asc ''[IGNORE]'') r)"
    using assms(3) by simp
  then have "group_loop w g 0 (py_get (g_members g) []) ?a1 = (None, ?a1)"
    by (rule group_loop_all_ignore)
  then have "handle_group_response w ?a1 = (None, ?a1)"
    using assms(1,2) by (simp add: handle_group_response_def)
  then show ?thesis
    using assms(1) by (simp add: get_character_response_def)
qed

lemma area_turn_all_ignore:
  assumes "groups cm chat_id = Some gr"
    and "\<forall>m \<in> set (members gr). \<forall>c.
           characters cm m = Some c \<longrightarrow>
             (\<exists>p r. cm_build_prompt (cw_format_other cw) cm chat_id c True = Inr p \<and>
                    cw_send cw p = Inr r \<and> py_in (asc ''[IGNORE]'') r)"
  shows "area_get_character_response cw chat_id cm = (None, cm)"
proof -
  have "area_group_loop cw chat_id 0 (members gr) cm = (None, cm)"
    using assms(2) by (rule area_group_loop_all_ignore)
  then show ?thesis
    using assms(1) by (simp add: area_get_character_response_def)
qed

text \<open>The group template of the example with the two known placeholders, formatted.\<close>

lemma ex_ok_template_formats:
  "py_format other (group_kwargs (asc ''Team'') (asc ''Alice'')) ex_ok_template =
     Inr (asc ''Chat: Team with Alice'')"
  by (simp add: ex_ok_template_def asc_def group_kwargs_def is_key_name_def is_name_char_def)

lemma ex_ok_app_prompt:
  "app_build_prompt w ex_ok_app ex_ok_char_dict (asc ''group'') (Some ex_group_dict) =
     Inr (asc ''Chat: Team with Alice'' @ [10, 10] @ HISTORY_HEADER @ [10] @ [10, 10] @
          APP_CLOSING)"
proof -
  have "py_join (asc '', '') (map (app_name ex_ok_app) (py_get (g_members ex_group_dict) [])) =
      asc ''Alice''"
    by (simp add: ex_group_dict_def py_get_def app_name_def ex_ok_app_def ex_ok_char_dict_def
        ex_char_dict_def)
  moreover have "py_get (g_name ex_group_dict) [] = asc ''Team''"
    "\<not> group_falsy ex_group_dict"
    "py_get (c_group_prompt ex_ok_char_dict) [] = ex_ok_template"
    by (simp_all add: ex_group_dict_def py_get_def group_falsy_def ex_ok_char_dict_def)
  moreover have "app_history_text ex_ok_app = Inr []"
    by (simp add: app_history_text_def ex_ok_app_def ex_app_def py_get_def py_last_n_def)
  ultimately show ?thesis
    by (simp add: app_build_prompt_def asc_group_not_private ex_ok_template_formats)
qed

lemma ex_ok_manager_prompt:
  "cm_build_prompt other ex_ok_manager (asc ''g'') ex_ok_character True =
     Inr (asc ''Chat: Team with Alice'' @ [10, 10] @ HISTORY_HEADER @ [10] @ [10] @ CM_CLOSING)"
proof -
  have "groups ex_ok_manager (asc ''g'') = Some ex_group"
    by (simp add: ex_ok_manager_def ex_manager_def)
  moreover have "py_join (asc '', '') (map (cm_name ex_ok_manager) (members ex_group)) =
      asc ''Alice''"
    by (simp add: ex_group_def cm_name_def ex_ok_manager_def ex_ok_character_def
        ex_character_def)
  moreover have "group_name ex_group = asc ''Team''"
    "group_prompt ex_ok_character = ex_ok_template"
    by (simp_all add: ex_group_def ex_ok_character_def)
  moreover have "cm_history_text ex_ok_manager (asc ''g'') = []"
    by (simp add: cm_history_text_def ex_ok_manager_def ex_manager_def py_last_n_def)
  ultimately show ?thesis
    by (simp add: cm_build_prompt_def ex_ok_template_formats)
qed


section \<open>Properties of the photo directive\<close>


















section \<open>Properties of the dispatch\<close>

text \<open>
  \<^verbatim>\<open>MessengerAPI.send_message\<close> on a configuration that is a dictionary tests the
  provider against it before any send function is called: for a provider that is not in
  it, the error text is returned and no library is called, whatever the prompt and the
  settings.
\<close>

lemma send_message_unknown_provider:
  assumes "provider = (case c_api_settings character_config of None \<Rightarrow> asc ''claude''
                       | Some s \<Rightarrow> py_get (as_provider s) (asc ''claude''))"
    and "entries provider = None"
  shows "send_message nw (Some entries) prompt character_config =
           (Inr (ERR_PROVIDER_OPEN @ provider @ ERR_NOT_FOUND_CLOSE), [])"
  using assms by (simp add: send_message_def Let_def)

text \<open>On the configuration \<^verbatim>\<open>None\<close> of an empty providers file the test itself raises,
  for every provider.\<close>

lemma send_message_no_config:
  "send_message nw None prompt character_config = (Inl TypeError, [])"
  by (simp add: send_message_def Let_def)

text \<open>
  \<^verbatim>\<open>APIManager.send_message\<close> calls no library while no provider or no model is
  selected, and none for a provider that is not one of the seven it has a send function
  for, in the configuration or not; on the configuration \<^verbatim>\<open>None\<close> it raises.
\<close>

lemma core_send_message_not_selected:
  "current_provider am = None \<or> current_model am = None \<Longrightarrow>
     core_send_message nw am prompt temperature max_tokens = (Inr CORE_NOT_SELECTED, [])"
  by (auto simp: core_send_message_def py_get_def)

lemma core_send_message_unsupported:
  assumes "current_provider am = Some provider" and "provider \<noteq> []"
    and "current_model am = Some model" and "model \<noteq> []"
    and "am_config am = Some entries" and "entries provider \<noteq> Some None"
    and "provider \<notin> set [asc ''claude'', asc ''gemini'', asc ''openrouter'', asc ''chutes'',
           asc ''featherless'', asc ''moonshot'', asc ''deepseek'']"
  shows "core_send_message nw am prompt temperature max_tokens =
           (Inr (CORE_PROVIDER @ provider @ CORE_UNSUPPORTED), [])"
proof (cases "entries provider")
  case None
  with assms show ?thesis
    by (simp add: core_send_message_def py_get_def Let_def)
next
  case (Some entry)
  with assms(6) obtain provider_data where "entry = Some provider_data"
    by (cases entry) auto
  with Some assms show ?thesis
    by (simp add: core_send_message_def py_get_def Let_def)
qed

lemma core_send_message_no_config:
  assumes "current_provider am = Some provider" and "provider \<noteq> []"
    and "current_model am = Some model" and "model \<noteq> []"
    and "am_config am = None"
  shows "core_send_message nw am prompt temperature max_tokens = (Inl AttributeError, [])"
  using assms by (simp add: core_send_message_def py_get_def Let_def)

text \<open>An empty list of choices in the reply to \<^verbatim>\<open>send_openrouter\<close>: the
  \<^verbatim>\<open>IndexError\<close> leaves the function, and \<^verbatim>\<open>send_message\<close> returns its own error
  text.\<close>

lemma send_openrouter_empty_choices:
  assumes "nw_reply nw
      \<lparr>lc_library = asc ''requests'', lc_url = api_url, lc_key = api_key, lc_model = model,
       lc_prompt = prompt, lc_temperature = temperature, lc_max_tokens = max_tokens\<rparr> =
      NoContent IndexError"
  shows "fst (send_openrouter nw prompt model api_url api_key temperature max_tokens) =
           Inl IndexError"
  using assms by (simp add: send_openrouter_def openrouter_handlers_def Let_def)


section \<open>The claims about the response cleaning\<close>

text \<open>
  C5. Cleaning truncates the text at the first occurrence of each cut marker, one marker
  after the other in the order of the list, then trims the whitespace at both ends: the
  truncated text is whitespace, a part \<open>r\<close> that neither begins nor ends with
  whitespace, and whitespace again, and the cleaned text is \<open>r\<close>; an empty input or an
  empty \<open>r\<close> gives the text that stands for an empty reply instead. In both classes
  \<^verbatim>\<open>"Hello###world"\<close> is cleaned to \<^verbatim>\<open>"Hello"\<close>, and so is that text with a blank and
  a tab in front and a blank and a line feed before the marker; a text with two
  different markers is cut at the one that comes first in the text.
\<close>

theorem clean_text_truncates_in_list_order:
  "(\<exists>lead r trail.
      foldl truncate_at s
        [[1057, 1058, 1054, 1055], asc ''INST'', asc ''Human:'', asc ''Assistant:'', asc ''###''] =
        lead @ r @ trail \<and>
      list_all isspace lead \<and> list_all isspace trail \<and>
      list_all (\<lambda>c. \<not> isspace c) (take 1 r) \<and>
      list_all (\<lambda>c. \<not> isspace c) (take 1 (rev r)) \<and>
      clean_text s =
        Inr (if s = [] then
               [1054, 1090, 1074, 1077, 1090, 32, 1084, 1086, 1076, 1077, 1083, 1080, 32, 1086,
                1082, 1072, 1079, 1072, 1083, 1089, 1103, 32, 1087, 1091, 1089, 1090, 1099, 1084,
                46]
             else if r = [] then
               [1054, 1090, 1074, 1077, 1090, 32, 1084, 1086, 1076, 1077, 1083, 1080, 32, 1086,
                1082, 1072, 1079, 1072, 1083, 1089, 1103, 32, 1087, 1091, 1089, 1090, 1099, 1084,
                32, 1087, 1086, 1089, 1083, 1077, 32, 1086, 1095, 1080, 1089, 1090, 1082, 1080,
                46]
             else r) \<and>
      core_clean_text s =
        Inr (if s = [] \<or> r = [] then
               [1054, 1090, 1074, 1077, 1090, 32, 1087, 1091, 1089, 1090, 1086, 1081]
             else r)) \<and>
   clean_text (asc ''Hello###world'') = Inr (asc ''Hello'') \<and>
   core_clean_text (asc ''Hello###world'') = Inr (asc ''Hello'') \<and>
   clean_text ([32, 9] @ asc ''Hello'' @ [32, 10] @ asc ''###world'') = Inr (asc ''Hello'') \<and>
   core_clean_text ([32, 9] @ asc ''Hello'' @ [32, 10] @ asc ''###world'') = Inr (asc ''Hello'') \<and>
   clean_text (asc ''one Human: two INST three'') = Inr (asc ''one'') \<and>
   core_clean_text (asc ''one Human: two INST three'') = Inr (asc ''one'')"
proof -
  define t where "t = foldl truncate_at s cut_tags"
  have tags: "foldl truncate_at s
      [[1057, 1058, 1054, 1055], asc ''INST'', asc ''Human:'', asc ''Assistant:'', asc ''###''] = t"
    by (simp add: t_def cut_tags_def)
  have split: "t = takeWhile isspace t @ strip t @
      rev (takeWhile isspace (rev (dropWhile isspace t)))"
    by (rule strip_decomp)
  have general: "\<exists>lead r trail.
      foldl truncate_at s
        [[1057, 1058, 1054, 1055], asc ''INST'', asc ''Human:'', asc ''Assistant:'', asc ''###''] =
        lead @ r @ trail \<and>
      list_all isspace lead \<and> list_all isspace trail \<and>
      list_all (\<lambda>c. \<not> isspace c) (take 1 r) \<and>
      list_all (\<lambda>c. \<not> isspace c) (take 1 (rev r)) \<and>
      clean_text s =
        Inr (if s = [] then
               [1054, 1090, 1074, 1077, 1090, 32, 1084, 1086, 1076, 1077, 1083, 1080, 32, 1086,
                1082, 1072, 1079, 1072, 1083, 1089, 1103, 32, 1087, 1091, 1089, 1090, 1099, 1084,
                46]
             else if r = [] then
               [1054, 1090, 1074, 1077, 1090, 32, 1084, 1086, 1076, 1077, 1083, 1080, 32, 1086,
                1082, 1072, 1079, 1072, 1083, 1089, 1103, 32, 1087, 1091, 1089, 1090, 1099, 1084,
                32, 1087, 1086, 1089, 1083, 1077, 32, 1086, 1095, 1080, 1089, 1090, 1082, 1080,
                46]
             else r) \<and>
      core_clean_text s =
        Inr (if s = [] \<or> r = [] then
               [1054, 1090, 1074, 1077, 1090, 32, 1087, 1091, 1089, 1090, 1086, 1081]
             else r)"
  proof (intro exI conjI)
    show "foldl truncate_at s
        [[1057, 1058, 1054, 1055], asc ''INST'', asc ''Human:'', asc ''Assistant:'', asc ''###''] =
        takeWhile isspace t @ strip t @ rev (takeWhile isspace (rev (dropWhile isspace t)))"
      using split by (simp only: tags)
    show "list_all isspace (takeWhile isspace t)"
      by (rule strip_surroundings(1))
    show "list_all isspace (rev (takeWhile isspace (rev (dropWhile isspace t))))"
      by (rule strip_surroundings(2))
    show "list_all (\<lambda>c. \<not> isspace c) (take 1 (strip t))"
      by (rule strip_first_last(1))
    show "list_all (\<lambda>c. \<not> isspace c) (take 1 (rev (strip t)))"
      by (rule strip_first_last(2))
    show "clean_text s =
        Inr (if s = [] then
               [1054, 1090, 1074, 1077, 1090, 32, 1084, 1086, 1076, 1077, 1083, 1080, 32, 1086,
                1082, 1072, 1079, 1072, 1083, 1089, 1103, 32, 1087, 1091, 1089, 1090, 1099, 1084,
                46]
             else if strip t = [] then
               [1054, 1090, 1074, 1077, 1090, 32, 1084, 1086, 1076, 1077, 1083, 1080, 32, 1086,
                1082, 1072, 1079, 1072, 1083, 1089, 1103, 32, 1087, 1091, 1089, 1090, 1099, 1084,
                32, 1087, 1086, 1089, 1083, 1077, 32, 1086, 1095, 1080, 1089, 1090, 1082, 1080,
                46]
             else strip t)"
      by (simp add: clean_text_eq t_def EMPTY_RESPONSE_def EMPTY_AFTER_CLEANING_def)
    show "core_clean_text s =
        Inr (if s = [] \<or> strip t = [] then
               [1054, 1090, 1074, 1077, 1090, 32, 1087, 1091, 1089, 1090, 1086, 1081]
             else strip t)"
      by (simp add: core_clean_text_eq t_def EMPTY_CORE_def)
  qed
  have hello: "clean_text (asc ''Hello###world'') = Inr (asc ''Hello'')"
    "core_clean_text (asc ''Hello###world'') = Inr (asc ''Hello'')"
    by (simp_all add: clean_text_eq core_clean_text_eq asc_def cut_tags_def strip_def isspace_def)
  have trimmed: "clean_text ([32, 9] @ asc ''Hello'' @ [32, 10] @ asc ''###world'') =
      Inr (asc ''Hello'')"
    "core_clean_text ([32, 9] @ asc ''Hello'' @ [32, 10] @ asc ''###world'') = Inr (asc ''Hello'')"
    by (simp_all add: clean_text_eq core_clean_text_eq asc_def cut_tags_def strip_def isspace_def)
  have two: "clean_text (asc ''one Human: two INST three'') = Inr (asc ''one'')"
    "core_clean_text (asc ''one Human: two INST three'') = Inr (asc ''one'')"
    by (simp_all add: clean_text_eq core_clean_text_eq asc_def cut_tags_def strip_def isspace_def)
  from general hello trimmed two show ?thesis by (intro conjI)
qed

text \<open>
  C6. Cleaning is idempotent: every text is cleaned without an exception, and cleaning
  the result again returns it unchanged. This holds for both classes, the empty text and
  the marker texts included.
\<close>

theorem clean_text_idempotent:
  "(\<exists>r. clean_text s = Inr r \<and> clean_text r = Inr r) \<and>
   (\<exists>r. core_clean_text s = Inr r \<and> core_clean_text r = Inr r)"
  using clean_text_result_fixed [of s] core_clean_text_result_fixed [of s]
  by (auto simp: clean_text_fixed)

text \<open>
  C10. Whatever the input, the cleaned text contains none of the five cut markers as a
  substring: not the four Cyrillic capitals U+0421 U+0422 U+041E U+041F, not
  \<^verbatim>\<open>INST\<close>, not \<^verbatim>\<open>Human:\<close>, not \<^verbatim>\<open>Assistant:\<close> and not \<^verbatim>\<open>###\<close>. This holds in both
  classes, and so for the texts that stand for an empty reply.
\<close>

theorem clean_text_output_has_no_marker:
  "(\<exists>r. clean_text s = Inr r \<and>
      \<not> sublist [1057, 1058, 1054, 1055] r \<and> \<not> sublist (asc ''INST'') r \<and>
      \<not> sublist (asc ''Human:'') r \<and> \<not> sublist (asc ''Assistant:'') r \<and>
      \<not> sublist (asc ''###'') r) \<and>
   (\<exists>r. core_clean_text s = Inr r \<and>
      \<not> sublist [1057, 1058, 1054, 1055] r \<and> \<not> sublist (asc ''INST'') r \<and>
      \<not> sublist (asc ''Human:'') r \<and> \<not> sublist (asc ''Assistant:'') r \<and>
      \<not> sublist (asc ''###'') r)"
proof -
  have markers: "list_all (\<lambda>tag. \<not> py_in tag r) cut_tags \<Longrightarrow>
      \<not> sublist [1057, 1058, 1054, 1055] r \<and> \<not> sublist (asc ''INST'') r \<and>
      \<not> sublist (asc ''Human:'') r \<and> \<not> sublist (asc ''Assistant:'') r \<and>
      \<not> sublist (asc ''###'') r" for r
    by (simp add: cut_tags_def py_in_sublist)
  from clean_text_result_fixed [of s] markers
  have "\<exists>r. clean_text s = Inr r \<and>
      \<not> sublist [1057, 1058, 1054, 1055] r \<and> \<not> sublist (asc ''INST'') r \<and>
      \<not> sublist (asc ''Human:'') r \<and> \<not> sublist (asc ''Assistant:'') r \<and>
      \<not> sublist (asc ''###'') r"
    by blast
  moreover from core_clean_text_result_fixed [of s] markers
  have "\<exists>r. core_clean_text s = Inr r \<and>
      \<not> sublist [1057, 1058, 1054, 1055] r \<and> \<not> sublist (asc ''INST'') r \<and>
      \<not> sublist (asc ''Human:'') r \<and> \<not> sublist (asc ''Assistant:'') r \<and>
      \<not> sublist (asc ''###'') r"
    by blast
  ultimately show ?thesis by (rule conjI)
qed

text \<open>
  C2 fails for \<^verbatim>\<open>APIManager._clean_text\<close>: the empty text and the text of three blanks
  are cleaned to one and the same text there, the twelve code points of its only marker.
  \<^verbatim>\<open>MessengerAPI.clean_text\<close> cleans the two inputs to two different texts, of 29 and of
  43 code points, as the claim says.
\<close>

theorem core_clean_text_one_marker:
  "core_clean_text [] =
     Inr [1054, 1090, 1074, 1077, 1090, 32, 1087, 1091, 1089, 1090, 1086, 1081] \<and>
   core_clean_text (asc ''   '') =
     Inr [1054, 1090, 1074, 1077, 1090, 32, 1087, 1091, 1089, 1090, 1086, 1081] \<and>
   clean_text [] =
     Inr [1054, 1090, 1074, 1077, 1090, 32, 1084, 1086, 1076, 1077, 1083, 1080, 32, 1086, 1082,
          1072, 1079, 1072, 1083, 1089, 1103, 32, 1087, 1091, 1089, 1090, 1099, 1084, 46] \<and>
   clean_text (asc ''   '') =
     Inr [1054, 1090, 1074, 1077, 1090, 32, 1084, 1086, 1076, 1077, 1083, 1080, 32, 1086, 1082,
          1072, 1079, 1072, 1083, 1089, 1103, 32, 1087, 1091, 1089, 1090, 1099, 1084, 32, 1087,
          1086, 1089, 1083, 1077, 32, 1086, 1095, 1080, 1089, 1090, 1082, 1080, 46]"
  by (simp add: clean_text_eq core_clean_text_eq asc_def cut_tags_def strip_def isspace_def
      EMPTY_CORE_def EMPTY_RESPONSE_def EMPTY_AFTER_CLEANING_def)


section \<open>The claim about a template with an unknown placeholder\<close>





section \<open>The claims about the history of a prompt\<close>




text \<open>
  C3 at a chat of one text message and one photo message: the history block of
  \<^verbatim>\<open>ChatManager.build_prompt\<close> has the line of the text message only, the photo message
  leaves nothing; \<^verbatim>\<open>MessengerApp.build_prompt\<close> renders the same two messages as two
  lines, the second with the photo note.
\<close>

theorem chat_manager_prompt_omits_photo:
  "cm_history_text (ex_manager\<lparr>chats := [asc ''a'' \<mapsto> ex_photo_chat]\<rparr>) (asc ''a'') =
     USER_NAME @ asc '': hi'' @ [10] \<and>
   app_history_text
     (ex_app\<lparr>app_chats := [asc ''a'' \<mapsto> map msg_to_dict ex_photo_chat],
             current_chat_id := asc ''a''\<rparr>) =
     Inr (USER_NAME @ asc '': hi'' @ [10] @ asc ''Alice: '' @ PHOTO_NOTE @ [10])"
proof -
  have "cm_history_text (ex_manager\<lparr>chats := [asc ''a'' \<mapsto> ex_photo_chat]\<rparr>) (asc ''a'') =
      USER_NAME @ asc '': hi'' @ [10]"
    by (simp add: cm_history_text_def py_last_n_def MAX_MESSAGES_FOR_API_def ex_photo_chat_def
        new_message_def cm_line_def asc_def)
  moreover have "app_history_text
     (ex_app\<lparr>app_chats := [asc ''a'' \<mapsto> map msg_to_dict ex_photo_chat],
             current_chat_id := asc ''a''\<rparr>) =
     Inr (USER_NAME @ asc '': hi'' @ [10] @ asc ''Alice: '' @ PHOTO_NOTE @ [10])"
    by (simp add: app_history_text_def py_last_n_def MAX_MESSAGES_FOR_API_def ex_photo_chat_def
        new_message_def msg_to_dict_def py_get_def py_item_def app_sender_name_def app_name_def
        ex_app_def ex_char_dict_def asc_def)
  ultimately show ?thesis by simp
qed


section \<open>The claim about the ignore directive\<close>

text \<open>
  C7. In a group turn in which every member with a character gets a prompt and a reply
  that contains \<^verbatim>\<open>[IGNORE]\<close>, no message is appended: the turn of the one-file
  application returns without an exception, the chats are as before and the typing mark
  of the chat is cleared; the turn of the refactored application leaves its state as it
  was.
\<close>

theorem group_turn_all_ignore:
  "(app_groups a (current_chat_id a) = Some g \<and> \<not> group_falsy g \<and>
    (\<forall>m \<in> set (py_get (g_members g) []). \<forall>c.
       app_characters a m = Some c \<and> \<not> char_falsy c \<longrightarrow>
         (\<exists>p r. app_build_prompt w a c (asc ''group'') (Some g) = Inr p \<and>
                w_send w p c = Inr r \<and> py_in (asc ''[IGNORE]'') r)) \<longrightarrow>
      get_character_response w a =
        (None, a\<lparr>typing_indicators := (typing_indicators a)(current_chat_id a \<mapsto> False)\<rparr>) \<and>
      app_chats (snd (get_character_response w a)) = app_chats a \<and>
      typing_indicators (snd (get_character_response w a)) (current_chat_id a) = Some False) \<and>
   (groups cm chat_id = Some gr \<and>
    (\<forall>m \<in> set (members gr). \<forall>c.
       characters cm m = Some c \<longrightarrow>
         (\<exists>p r. cm_build_prompt (cw_format_other cw) cm chat_id c True = Inr p \<and>
                cw_send cw p = Inr r \<and> py_in (asc ''[IGNORE]'') r)) \<longrightarrow>
      area_get_character_response cw chat_id cm = (None, cm))"
proof (intro conjI impI)
  assume h: "app_groups a (current_chat_id a) = Some g \<and> \<not> group_falsy g \<and>
    (\<forall>m \<in> set (py_get (g_members g) []). \<forall>c.
       app_characters a m = Some c \<and> \<not> char_falsy c \<longrightarrow>
         (\<exists>p r. app_build_prompt w a c (asc ''group'') (Some g) = Inr p \<and>
                w_send w p c = Inr r \<and> py_in (asc ''[IGNORE]'') r))"
  then have h1: "app_groups a (current_chat_id a) = Some g" and h2: "\<not> group_falsy g"
    and h3: "\<forall>m \<in> set (py_get (g_members g) []). \<forall>c.
       app_characters a m = Some c \<and> \<not> char_falsy c \<longrightarrow>
         (\<exists>p r. app_build_prompt w a c (asc ''group'') (Some g) = Inr p \<and>
                w_send w p c = Inr r \<and> py_in (asc ''[IGNORE]'') r)"
    by blast+
  have turn: "get_character_response w a =
      (None, a\<lparr>typing_indicators := (typing_indicators a)(current_chat_id a \<mapsto> False)\<rparr>)"
    using h1 h2 h3 by (rule app_turn_all_ignore)
  then show "get_character_response w a =
      (None, a\<lparr>typing_indicators := (typing_indicators a)(current_chat_id a \<mapsto> False)\<rparr>)" .
  from turn show "app_chats (snd (get_character_response w a)) = app_chats a" by simp
  from turn show "typing_indicators (snd (get_character_response w a)) (current_chat_id a) =
      Some False" by simp
next
  assume h: "groups cm chat_id = Some gr \<and>
    (\<forall>m \<in> set (members gr). \<forall>c.
       characters cm m = Some c \<longrightarrow>
         (\<exists>p r. cm_build_prompt (cw_format_other cw) cm chat_id c True = Inr p \<and>
                cw_send cw p = Inr r \<and> py_in (asc ''[IGNORE]'') r))"
  then have h4: "groups cm chat_id = Some gr"
    and h5: "\<forall>m \<in> set (members gr). \<forall>c.
       characters cm m = Some c \<longrightarrow>
         (\<exists>p r. cm_build_prompt (cw_format_other cw) cm chat_id c True = Inr p \<and>
                cw_send cw p = Inr r \<and> py_in (asc ''[IGNORE]'') r)"
    by blast+
  show "area_get_character_response cw chat_id cm = (None, cm)"
    using h4 h5 by (rule area_turn_all_ignore)
qed

theorem group_turn_all_ignore_witness:
  "app_groups ex_ok_app (current_chat_id ex_ok_app) = Some ex_group_dict \<and>
   \<not> group_falsy ex_group_dict \<and>
   py_get (g_members ex_group_dict) [] = [asc ''a''] \<and>
   app_characters ex_ok_app (asc ''a'') = Some ex_ok_char_dict \<and>
   app_build_prompt ex_world ex_ok_app ex_ok_char_dict (asc ''group'') (Some ex_group_dict) =
     Inr (asc ''Chat: Team with Alice'' @ [10, 10] @ HISTORY_HEADER @ [10] @ [10, 10] @
          APP_CLOSING) \<and>
   w_send ex_world
     (asc ''Chat: Team with Alice'' @ [10, 10] @ HISTORY_HEADER @ [10] @ [10, 10] @ APP_CLOSING)
     ex_ok_char_dict = Inr (asc ''[IGNORE]'') \<and>
   py_in (asc ''[IGNORE]'') (asc ''[IGNORE]'') \<and>
   groups ex_ok_manager (asc ''g'') = Some ex_group \<and>
   members ex_group = [asc ''a''] \<and>
   characters ex_ok_manager (asc ''a'') = Some ex_ok_character \<and>
   cm_build_prompt (cw_format_other ex_core_world) ex_ok_manager (asc ''g'') ex_ok_character True =
     Inr (asc ''Chat: Team with Alice'' @ [10, 10] @ HISTORY_HEADER @ [10] @ [10] @ CM_CLOSING) \<and>
   cw_send ex_core_world
     (asc ''Chat: Team with Alice'' @ [10, 10] @ HISTORY_HEADER @ [10] @ [10] @ CM_CLOSING) =
     Inr (asc ''[IGNORE]'') \<and>
   get_character_response ex_world ex_ok_app =
     (None, ex_ok_app\<lparr>typing_indicators :=
        (typing_indicators ex_ok_app)(current_chat_id ex_ok_app \<mapsto> False)\<rparr>) \<and>
   app_chats (snd (get_character_response ex_world ex_ok_app)) = app_chats ex_ok_app \<and>
   typing_indicators (snd (get_character_response ex_world ex_ok_app))
     (current_chat_id ex_ok_app) = Some False \<and>
   area_get_character_response ex_core_world (asc ''g'') ex_ok_manager = (None, ex_ok_manager)"
proof -
  have h1: "app_groups ex_ok_app (current_chat_id ex_ok_app) = Some ex_group_dict"
    by (simp add: ex_ok_app_def ex_app_def)
  have h2: "\<not> group_falsy ex_group_dict"
    by (simp add: group_falsy_def ex_group_dict_def)
  have ms: "py_get (g_members ex_group_dict) [] = [asc ''a'']"
    by (simp add: ex_group_dict_def py_get_def)
  have c: "app_characters ex_ok_app (asc ''a'') = Some ex_ok_char_dict"
    by (simp add: ex_ok_app_def)
  have s: "w_send ex_world p ex_ok_char_dict = Inr (asc ''[IGNORE]'')" for p
    by (simp add: ex_world_def)
  have ig: "py_in (asc ''[IGNORE]'') (asc ''[IGNORE]'')"
    by (simp add: asc_def)
  have h3: "\<forall>m \<in> set (py_get (g_members ex_group_dict) []). \<forall>c.
      app_characters ex_ok_app m = Some c \<and> \<not> char_falsy c \<longrightarrow>
        (\<exists>p r. app_build_prompt ex_world ex_ok_app c (asc ''group'') (Some ex_group_dict) = Inr p \<and>
               w_send ex_world p c = Inr r \<and> py_in (asc ''[IGNORE]'') r)"
    using c s ig ex_ok_app_prompt [of ex_world] by (simp add: ms)
  have h4: "groups ex_ok_manager (asc ''g'') = Some ex_group"
    by (simp add: ex_ok_manager_def ex_manager_def)
  have gm: "members ex_group = [asc ''a'']"
    by (simp add: ex_group_def)
  have cc: "characters ex_ok_manager (asc ''a'') = Some ex_ok_character"
    by (simp add: ex_ok_manager_def)
  have cs: "cw_send ex_core_world p = Inr (asc ''[IGNORE]'')" for p
    by (simp add: ex_core_world_def)
  have h5: "\<forall>m \<in> set (members ex_group). \<forall>c.
      characters ex_ok_manager m = Some c \<longrightarrow>
        (\<exists>p r. cm_build_prompt (cw_format_other ex_core_world) ex_ok_manager (asc ''g'') c True =
                 Inr p \<and>
               cw_send ex_core_world p = Inr r \<and> py_in (asc ''[IGNORE]'') r)"
    using cc cs ig ex_ok_manager_prompt [of "cw_format_other ex_core_world"] by (simp add: gm)
  note inst = group_turn_all_ignore [of ex_ok_app ex_group_dict ex_world ex_ok_manager
      "asc ''g''" ex_group ex_core_world]
  from inst h1 h2 h3 have app: "get_character_response ex_world ex_ok_app =
      (None, ex_ok_app\<lparr>typing_indicators :=
         (typing_indicators ex_ok_app)(current_chat_id ex_ok_app \<mapsto> False)\<rparr>)"
    by blast
  from inst h4 h5 have area:
    "area_get_character_response ex_core_world (asc ''g'') ex_ok_manager = (None, ex_ok_manager)"
    by blast
  from app area h1 h2 ms c s ig h4 gm cc cs
    ex_ok_app_prompt [of ex_world] ex_ok_manager_prompt [of "cw_format_other ex_core_world"]
  show ?thesis by simp
qed


section \<open>The claim about the photo directive\<close>





section \<open>The claim about an unknown provider\<close>

text \<open>
  C9 fails in \<^verbatim>\<open>MessengerAPI.send_message\<close> when the providers file is empty. The
  configuration is then \<^verbatim>\<open>None\<close>, no provider is registered in it, and for every
  prompt and every settings of the character the test of the provider raises
  \<^verbatim>\<open>TypeError\<close>: no error text is returned. No library is called. On a configuration
  that is a dictionary the claim holds: with \<^verbatim>\<open>claude\<close> as the only provider of the
  configuration, a character whose provider is \<^verbatim>\<open>nope\<close> gets the text that says that
  the provider \<^verbatim>\<open>nope\<close> is not found in the configuration, and no library is called.
\<close>

theorem send_message_empty_providers_file:
  "send_message nw None prompt character_config = (Inl TypeError, []) \<and>
   send_message nw
     (Some [asc ''claude'' \<mapsto>
        Some \<lparr>pd_api = None, pd_key = Some (asc ''secret''), pd_models = None\<rparr>])
     prompt
     \<lparr>c_id = Some (asc ''a''), c_name = Some (asc ''Alice''), c_private_prompt = None,
      c_group_prompt = None, c_photos = None,
      c_api_settings = Some \<lparr>as_provider = Some (asc ''nope''), as_model = Some (asc ''m''),
        as_temperature = temperature, as_max_tokens = max_tokens\<rparr>\<rparr> =
     (Inr ([1054, 1096, 1080, 1073, 1082, 1072, 58, 32, 1055, 1088, 1086, 1074, 1072, 1081, 1076, 1077,
           1088, 32, 39] @
           asc ''nope'' @
           [39, 32, 1085, 1077, 32, 1085, 1072, 1081, 1076, 1077, 1085, 32, 1074, 32, 1082, 1086, 1085,
           1092, 1080, 1075, 1091, 1088, 1072, 1094, 1080, 1080, 46]), [])"
proof -
  have "asc ''nope'' \<noteq> asc ''claude''" by (simp add: asc_def)
  then have "send_message nw
     (Some [asc ''claude'' \<mapsto>
        Some \<lparr>pd_api = None, pd_key = Some (asc ''secret''), pd_models = None\<rparr>])
     prompt
     \<lparr>c_id = Some (asc ''a''), c_name = Some (asc ''Alice''), c_private_prompt = None,
      c_group_prompt = None, c_photos = None,
      c_api_settings = Some \<lparr>as_provider = Some (asc ''nope''), as_model = Some (asc ''m''),
        as_temperature = temperature, as_max_tokens = max_tokens\<rparr>\<rparr> =
     (Inr (ERR_PROVIDER_OPEN @ asc ''nope'' @ ERR_NOT_FOUND_CLOSE), [])"
    by (intro send_message_unknown_provider) (simp_all add: py_get_def)
  then show ?thesis
    by (simp add: send_message_no_config ERR_PROVIDER_OPEN_def ERR_NOT_FOUND_CLOSE_def)
qed


end
